theory Spec2Isabelle
  imports Complex_Main
begin

section \<open>Python values\<close>

text \<open>
  The values that flow through the configuration store, the request arguments and the
  response envelopes.  A \<open>dict\<close> is an association list in insertion order (Python
  dictionaries iterate in insertion order); \<open>PObj t\<close> is an instance of some other class
  named \<open>t\<close> (a \<open>Decimal\<close>, a \<open>datetime\<close>): truthy, hashable, without a mapping interface
  and unknown to the JSON encoder.  Values are trees: no two places share one mutable
  object.
\<close>

datatype pyval =
    PNone
  | PBool bool
  | PInt int
  | PFloat rat
  | PStr string
  | PList "pyval list"
  | PDict "(string \<times> pyval) list"
  | PObj string

text \<open>Truth value testing, as \<open>if x:\<close> and \<open>not x\<close> do it.\<close>

fun truthy :: "pyval \<Rightarrow> bool" where
  "truthy PNone = False"
| "truthy (PBool b) = b"
| "truthy (PInt i) = (i \<noteq> 0)"
| "truthy (PFloat f) = (f \<noteq> 0)"
| "truthy (PStr s) = (s \<noteq> [])"
| "truthy (PList xs) = (xs \<noteq> [])"
| "truthy (PDict d) = (d \<noteq> [])"
| "truthy (PObj t) = True"

text \<open>\<open>isinstance(x, str)\<close> and \<open>isinstance(x, dict)\<close>.\<close>

fun is_str :: "pyval \<Rightarrow> bool" where
  "is_str (PStr s) = True"
| "is_str _ = False"

fun is_dict :: "pyval \<Rightarrow> bool" where
  "is_dict (PDict d) = True"
| "is_dict _ = False"

text \<open>Lists and dictionaries are unhashable: using one as a dictionary key raises.\<close>

fun hashable :: "pyval \<Rightarrow> bool" where
  "hashable (PList xs) = False"
| "hashable (PDict d) = False"
| "hashable _ = True"

fun type_name :: "pyval \<Rightarrow> string" where
  "type_name PNone = ''NoneType''"
| "type_name (PBool b) = ''bool''"
| "type_name (PInt i) = ''int''"
| "type_name (PFloat f) = ''float''"
| "type_name (PStr s) = ''str''"
| "type_name (PList xs) = ''list''"
| "type_name (PDict d) = ''dict''"
| "type_name (PObj t) = t"

subsection \<open>Dictionaries\<close>

text \<open>\<open>d[k] = v\<close>: an existing key keeps its position, a new key goes last.\<close>

primrec dict_setitem :: "'k \<Rightarrow> 'v \<Rightarrow> ('k \<times> 'v) list \<Rightarrow> ('k \<times> 'v) list" where
  "dict_setitem k v [] = [(k, v)]"
| "dict_setitem k v (p # ps) =
     (if fst p = k then (k, v) # ps else p # dict_setitem k v ps)"

text \<open>\<open>d.get(k)\<close> is \<open>None\<close> for an absent key; \<open>d.get(k, default)\<close> is \<open>default\<close>.\<close>

definition dict_get :: "(string \<times> pyval) list \<Rightarrow> string \<Rightarrow> pyval" where
  "dict_get d k = (case map_of d k of None \<Rightarrow> PNone | Some v \<Rightarrow> v)"

definition dict_get_default :: "('k \<times> 'v) list \<Rightarrow> 'k \<Rightarrow> 'v \<Rightarrow> 'v" where
  "dict_get_default d k dflt = (case map_of d k of None \<Rightarrow> dflt | Some v \<Rightarrow> v)"

subsection \<open>Strings\<close>

text \<open>
  \<open>s.split(c)\<close> with a one-character separator.  The result is never empty (the split
  of the empty string is one empty piece), so the \<open>[]\<close> branch below is never taken.
\<close>

fun split_on :: "char \<Rightarrow> string \<Rightarrow> string list" where
  "split_on c [] = [[]]"
| "split_on c (x # xs) =
     (if x = c then [] # split_on c xs
      else (case split_on c xs of w # ws \<Rightarrow> (x # w) # ws | [] \<Rightarrow> [[x]]))"

text \<open>\<open>sep.join(xs)\<close>.\<close>

fun join :: "string \<Rightarrow> string list \<Rightarrow> string" where
  "join sep [] = []"
| "join sep [x] = x"
| "join sep (x # y # ys) = x @ sep @ join sep (y # ys)"

text \<open>\<open>k in s\<close> on strings: \<open>k\<close> occurs in \<open>s\<close> as a contiguous run.\<close>

fun starts_with :: "string \<Rightarrow> string \<Rightarrow> bool" where
  "starts_with s [] = True"
| "starts_with [] (k # ks) = False"
| "starts_with (x # xs) (k # ks) = (x = k \<and> starts_with xs ks)"

fun str_contains :: "string \<Rightarrow> string \<Rightarrow> bool" where
  "str_contains [] k = (k = [])"
| "str_contains (x # xs) k = (starts_with (x # xs) k \<or> str_contains xs k)"

section \<open>Exceptions\<close>

text \<open>
  An exception is its class and its \<open>str(e)\<close>.  The classes of
  \<open>utils/exceptions.py\<close> pass their message to \<open>Exception.__init__\<close>, so \<open>str(e)\<close> is
  the message.
\<close>

datatype exc_class =
    Exception
  | ValueError
  | TypeError
  | AttributeError
  | IndexError
  | ImportError
  | OSError
  | ProviderException
  | ConfigException
  | ValidationException

datatype py_exception = Raise exc_class string

fun exc_class_of :: "py_exception \<Rightarrow> exc_class" where
  "exc_class_of (Raise c m) = c"

fun exc_str :: "py_exception \<Rightarrow> string" where
  "exc_str (Raise c m) = m"

section \<open>Configuration store (utils/config.py)\<close>

record Config =
  config_data :: pyval

text \<open>
  \<open>Config._load_from_env\<close>: \<open>getenv\<close> is the process environment;
  \<open>os.getenv(name)\<close> is \<open>None\<close> for an unset variable.
\<close>

definition os_getenv :: "(string \<Rightarrow> string option) \<Rightarrow> string \<Rightarrow> pyval" where
  "os_getenv getenv name = (case getenv name of None \<Rightarrow> PNone | Some s \<Rightarrow> PStr s)"

definition os_getenv_default :: "(string \<Rightarrow> string option) \<Rightarrow> string \<Rightarrow> string \<Rightarrow> pyval" where
  "os_getenv_default getenv name dflt =
     (case getenv name of None \<Rightarrow> PStr dflt | Some s \<Rightarrow> PStr s)"

definition load_from_env :: "(string \<Rightarrow> string option) \<Rightarrow> Config" where
  "load_from_env getenv = \<lparr>config_data = PDict
     [(''gemini'', PDict
         [(''api_key'', os_getenv getenv ''GEMINI_API_KEY''),
          (''model'', os_getenv_default getenv ''GEMINI_MODEL'' ''gemini-pro'')]),
      (''openai'', PDict
         [(''api_key'', os_getenv getenv ''OPENAI_API_KEY''),
          (''model'', os_getenv_default getenv ''OPENAI_MODEL'' ''gpt-3.5-turbo'')]),
      (''default_provider'', os_getenv_default getenv ''DEFAULT_AI_PROVIDER'' ''gemini''),
      (''log_level'', os_getenv_default getenv ''LOG_LEVEL'' ''INFO''),
      (''log_path'', os_getenv_default getenv ''LOG_PATH'' ''logs/interactions.log'')]\<rparr>"

text \<open>
  \<open>Config.get\<close>: the loop over \<open>key.split('.')\<close>.  A step through a dictionary whose
  \<open>get\<close> yields \<open>None\<close> (key absent, or bound to \<open>None\<close>) returns the default, and so does
  a step through a value that is not a dictionary.
\<close>

fun get_loop :: "pyval \<Rightarrow> string list \<Rightarrow> pyval \<Rightarrow> pyval" where
  "get_loop v [] dflt = v"
| "get_loop v (k # ks) dflt =
     (case v of
        PDict d \<Rightarrow>
          (let v' = dict_get d k in
           if v' = PNone then dflt else get_loop v' ks dflt)
      | _ \<Rightarrow> dflt)"

definition Config_get :: "Config \<Rightarrow> string \<Rightarrow> pyval \<Rightarrow> pyval" where
  "Config_get self key dflt = get_loop (config_data self) (split_on CHR ''.'' key) dflt"

text \<open>
  \<open>Config.set\<close>.  The loop over \<open>keys[:-1]\<close> descends, creating \<open>{}\<close> under an absent
  key; the last key is assigned.  The source never checks that what it descends into is a
  dictionary: \<open>k not in config\<close>, \<open>config[k]\<close> and \<open>config[k] = ...\<close> on any other value
  raise \<open>TypeError\<close> (the message is the interpreter's).  A freshly created \<open>{}\<close> never
  fails below, so a raise happens before anything was mutated, and the store is unchanged
  then.
\<close>

definition quoted :: "string \<Rightarrow> string" where
  "quoted t = CHR 0x27 # t @ [CHR 0x27]"

fun set_type_error :: "pyval \<Rightarrow> string \<Rightarrow> bool \<Rightarrow> string" where
  "set_type_error (PList xs) k final = ''list indices must be integers or slices, not str''"
| "set_type_error (PStr s) k final =
     (if \<not> final \<and> str_contains s k
      then ''string indices must be integers, not '' @ quoted ''str''
      else quoted ''str'' @ '' object does not support item assignment'')"
| "set_type_error v k final =
     (if final then quoted (type_name v) @ '' object does not support item assignment''
      else ''argument of type '' @ quoted (type_name v) @ '' is not iterable'')"

fun set_loop :: "pyval \<Rightarrow> string list \<Rightarrow> pyval \<Rightarrow> py_exception + pyval" where
  "set_loop config [] v = Inl (Raise IndexError ''list index out of range'')"
| "set_loop config [k] v =
     (case config of
        PDict d \<Rightarrow> Inr (PDict (dict_setitem k v d))
      | _ \<Rightarrow> Inl (Raise TypeError (set_type_error config k True)))"
| "set_loop config (k # k' # ks) v =
     (case config of
        PDict d \<Rightarrow>
          (let child = (case map_of d k of None \<Rightarrow> PDict [] | Some c \<Rightarrow> c) in
           case set_loop child (k' # ks) v of
             Inl e \<Rightarrow> Inl e
           | Inr child' \<Rightarrow> Inr (PDict (dict_setitem k child' d)))
      | _ \<Rightarrow> Inl (Raise TypeError (set_type_error config k False)))"

definition Config_set :: "Config \<Rightarrow> string \<Rightarrow> pyval \<Rightarrow> py_exception + Config" where
  "Config_set self key v =
     (case set_loop (config_data self) (split_on CHR ''.'' key) v of
        Inl e \<Rightarrow> Inl e
      | Inr c \<Rightarrow> Inr (self\<lparr>config_data := c\<rparr>))"

text \<open>\<open>Config.get_provider_config\<close>.\<close>

definition get_provider_config :: "Config \<Rightarrow> string \<Rightarrow> py_exception + pyval" where
  "get_provider_config self provider_name =
     (let provider_config = Config_get self provider_name (PDict []) in
      if \<not> truthy provider_config
      then Inl (Raise ConfigException (''No configuration found for provider: '' @ provider_name))
      else Inr provider_config)"

section \<open>Providers (core/ai\_provider.py, providers/)\<close>

record AIProviderConfig =
  api_key :: pyval
  model :: pyval
  temperature :: pyval
  max_tokens :: pyval
  additional_params :: "(string \<times> pyval) list"

text \<open>
  The dataclass constructor as the processor calls it: \<open>additional_params\<close> is left out
  and \<open>__post_init__\<close> replaces its \<open>None\<close> by \<open>{}\<close>.
\<close>

definition new_AIProviderConfig :: "pyval \<Rightarrow> pyval \<Rightarrow> pyval \<Rightarrow> pyval \<Rightarrow> AIProviderConfig" where
  "new_AIProviderConfig k m t mt =
     \<lparr>api_key = k, model = m, temperature = t, max_tokens = mt, additional_params = []\<rparr>"

datatype provider_class = GeminiProvider | GPTProvider

text \<open>The remote client object a provider holds in \<open>_client\<close>.\<close>

datatype client = GenerativeModel pyval | AsyncOpenAI pyval

record AIProvider =
  provider_class :: provider_class
  provider_config :: AIProviderConfig
  provider_client :: "client option"

fun class_name :: "provider_class \<Rightarrow> string" where
  "class_name GeminiProvider = ''GeminiProvider''"
| "class_name GPTProvider = ''GPTProvider''"

definition get_provider_name :: "AIProvider \<Rightarrow> string" where
  "get_provider_name p =
     (case provider_class p of GeminiProvider \<Rightarrow> ''gemini'' | GPTProvider \<Rightarrow> ''gpt'')"

text \<open>
  What the processor and the providers do to the outside world, in order: lines handed to
  the logging sink (timestamps left out), a provider touching its client library, and a
  call of a provider's \<open>generate_response\<close>.
\<close>

type_synonym context_map = "(string \<times> pyval) list"
type_synonym history = "(string \<times> string) list list"

datatype event =
    LogInfo string
  | LogWarning string
  | LogError string string "(string \<times> pyval) list"
  | LogInteraction pyval string string "(string \<times> pyval) list"
  | ClientInit provider_class AIProviderConfig
  | GenerateResponse AIProvider pyval "context_map option" "history option"

text \<open>
  The surroundings of a run: the process environment; what the body of each provider's
  \<open>_initialize_client\<close> does when it is run on a configuration (\<open>None\<close>: it completes;
  \<open>Some e\<close>: the import or the client constructor raises \<open>e\<close>); the attributes of the
  \<open>logging\<close> module (\<open>getattr(logging, name)\<close>, \<open>None\<close> where it has none of that name);
  what creating the log directory and what opening the log file does; and the built-ins
  \<open>str.upper\<close>, and \<open>str\<close> and \<open>repr\<close> on values.
\<close>

record environment =
  getenv :: "string \<Rightarrow> string option"
  gemini_sdk :: "AIProviderConfig \<Rightarrow> py_exception option"
  openai_sdk :: "AIProviderConfig \<Rightarrow> py_exception option"
  logging_attr :: "string \<Rightarrow> pyval option"
  make_log_dir :: "string \<Rightarrow> py_exception option"
  open_log :: "string \<Rightarrow> py_exception option"
  str_upper :: "string \<Rightarrow> string"
  builtin_str :: "pyval \<Rightarrow> string"
  builtin_repr :: "pyval \<Rightarrow> string"

text \<open>\<open>AIProvider._validate_config\<close>.\<close>

definition validate_config :: "provider_class \<Rightarrow> AIProviderConfig \<Rightarrow> py_exception option" where
  "validate_config cls config =
     (if \<not> truthy (api_key config)
      then Some (Raise ValueError (class_name cls @ '' requires an API key''))
      else if \<not> truthy (model config)
      then Some (Raise ValueError (class_name cls @ '' requires a model name''))
      else None)"

text \<open>\<open>GeminiProvider._initialize_client\<close> and \<open>GPTProvider._initialize_client\<close>.\<close>

definition Gemini_initialize_client :: "environment \<Rightarrow> AIProviderConfig \<Rightarrow> py_exception + client" where
  "Gemini_initialize_client env config =
     (case gemini_sdk env config of
        None \<Rightarrow> Inr (GenerativeModel (model config))
      | Some e \<Rightarrow>
          if exc_class_of e = ImportError
          then Inl (Raise ProviderException
                 (''google-generativeai package not installed. '' @
                  ''Install it with: pip install google-generativeai''))
          else Inl (Raise ProviderException (''Failed to initialize Gemini client: '' @ exc_str e)))"

definition GPT_initialize_client :: "environment \<Rightarrow> AIProviderConfig \<Rightarrow> py_exception + client" where
  "GPT_initialize_client env config =
     (case openai_sdk env config of
        None \<Rightarrow> Inr (AsyncOpenAI (api_key config))
      | Some e \<Rightarrow>
          if exc_class_of e = ImportError
          then Inl (Raise ProviderException
                 (''openai package not installed. '' @ ''Install it with: pip install openai''))
          else Inl (Raise ProviderException (''Failed to initialize OpenAI client: '' @ exc_str e)))"

text \<open>
  The constructors: \<open>AIProvider.__init__\<close> stores the configuration and validates it, then
  the subclass sets \<open>_client = None\<close> and initialises the client.  The result comes with
  the events of the construction.
\<close>

definition GeminiProvider_init ::
  "environment \<Rightarrow> AIProviderConfig \<Rightarrow> (py_exception + AIProvider) \<times> event list" where
  "GeminiProvider_init env config =
     (case validate_config GeminiProvider config of
        Some e \<Rightarrow> (Inl e, [])
      | None \<Rightarrow>
          (case Gemini_initialize_client env config of
             Inl e \<Rightarrow> (Inl e, [ClientInit GeminiProvider config])
           | Inr c \<Rightarrow>
               (Inr \<lparr>provider_class = GeminiProvider, provider_config = config,
                     provider_client = Some c\<rparr>,
                [ClientInit GeminiProvider config])))"

definition GPTProvider_init ::
  "environment \<Rightarrow> AIProviderConfig \<Rightarrow> (py_exception + AIProvider) \<times> event list" where
  "GPTProvider_init env config =
     (case validate_config GPTProvider config of
        Some e \<Rightarrow> (Inl e, [])
      | None \<Rightarrow>
          (case GPT_initialize_client env config of
             Inl e \<Rightarrow> (Inl e, [ClientInit GPTProvider config])
           | Inr c \<Rightarrow>
               (Inr \<lparr>provider_class = GPTProvider, provider_config = config,
                     provider_client = Some c\<rparr>,
                [ClientInit GPTProvider config])))"

subsection \<open>Prompt assembly\<close>

text \<open>
  An f-string field \<open>{v}\<close> is \<open>v\<close> itself for a string; for anything else it is the
  built-in rendering, a parameter here.
\<close>

definition format_value :: "(pyval \<Rightarrow> string) \<Rightarrow> pyval \<Rightarrow> string" where
  "format_value str v = (case v of PStr s \<Rightarrow> s | _ \<Rightarrow> str v)"

definition newline :: string where
  "newline = [CHR 0x0A]"

text \<open>\<open>f"{k}: {v}"\<close> for a context item, \<open>f"{role}: {content}"\<close> for a history message.\<close>

definition context_line :: "(pyval \<Rightarrow> string) \<Rightarrow> string \<times> pyval \<Rightarrow> string" where
  "context_line str kv = fst kv @ '': '' @ format_value str (snd kv)"

definition history_line :: "(string \<times> string) list \<Rightarrow> string" where
  "history_line msg =
     dict_get_default msg ''role'' ''user'' @ '': '' @ dict_get_default msg ''content'' []"

text \<open>\<open>GeminiProvider._build_prompt\<close>: \<open>parts\<close> grows by \<open>append\<close> and is joined at the end.\<close>

definition build_prompt ::
  "(pyval \<Rightarrow> string) \<Rightarrow> string \<Rightarrow> context_map option \<Rightarrow> history option \<Rightarrow> string" where
  "build_prompt str prompt context conversation_history =
     (let parts = [];
          parts = (case context of
                     Some c \<Rightarrow>
                       if c \<noteq> []
                       then parts @ [''Context:'' @ newline @
                                     join newline (map (context_line str) c) @ newline]
                       else parts
                   | None \<Rightarrow> parts);
          parts = (case conversation_history of
                     Some h \<Rightarrow>
                       if h \<noteq> []
                       then parts @ [''Previous conversation:'' @ newline @
                                     join newline (map history_line h) @ newline]
                       else parts
                   | None \<Rightarrow> parts);
          parts = parts @ [''User: '' @ prompt]
      in join newline parts)"

text \<open>\<open>GPTProvider._build_messages\<close>.\<close>

definition history_message :: "(string \<times> string) list \<Rightarrow> (string \<times> string) list" where
  "history_message msg =
     [(''role'', dict_get_default msg ''role'' ''user''),
      (''content'', dict_get_default msg ''content'' [])]"

definition build_messages ::
  "(pyval \<Rightarrow> string) \<Rightarrow> string \<Rightarrow> context_map option \<Rightarrow> history option
     \<Rightarrow> (string \<times> string) list list" where
  "build_messages str prompt context conversation_history =
     (let messages = [];
          system_content = ''You are Aura, an intelligent financial assistant.'';
          system_content = (case context of
                              Some c \<Rightarrow>
                                if c \<noteq> []
                                then system_content @ newline @ newline @ ''Context:'' @ newline @
                                     join newline (map (context_line str) c)
                                else system_content
                            | None \<Rightarrow> system_content);
          messages = messages @ [[(''role'', ''system''), (''content'', system_content)]];
          messages = (case conversation_history of
                        Some h \<Rightarrow> if h \<noteq> [] then messages @ map history_message h else messages
                      | None \<Rightarrow> messages);
          messages = messages @ [[(''role'', ''user''), (''content'', prompt)]]
      in messages)"

section \<open>Logging sink (core/logger.py)\<close>

text \<open>
  \<open>Logger.setLevel\<close> checks its argument: an \<open>int\<close> (a \<open>bool\<close> is one) is a level, a
  string must be one of the level names, anything else is a \<open>TypeError\<close>.
\<close>

definition level_names :: "string list" where
  "level_names =
     [''CRITICAL'', ''FATAL'', ''ERROR'', ''WARN'', ''WARNING'', ''INFO'', ''DEBUG'', ''NOTSET'']"

definition check_level :: "(pyval \<Rightarrow> string) \<Rightarrow> pyval \<Rightarrow> py_exception option" where
  "check_level repr level =
     (case level of
        PInt i \<Rightarrow> None
      | PBool b \<Rightarrow> None
      | PStr s \<Rightarrow>
          if s \<in> set level_names then None
          else Some (Raise ValueError (''Unknown level: '' @ repr level))
      | _ \<Rightarrow> Some (Raise TypeError
                (''Level not an integer or a valid string: '' @ repr level)))"

text \<open>
  \<open>InteractionLogger.__init__\<close>, in the source's order: \<open>log_level.upper()\<close> needs a
  string; the level is \<open>getattr(logging, log_level.upper(), logging.INFO)\<close>, whatever
  attribute of the module that name turns up (\<open>logging.INFO\<close> is 20); \<open>Path(log_path)\<close>
  needs a string; the directory is created; \<open>setLevel\<close> checks the level; the file
  handler opens the file.
\<close>

definition InteractionLogger_init :: "environment \<Rightarrow> pyval \<Rightarrow> pyval \<Rightarrow> py_exception option" where
  "InteractionLogger_init env log_path log_level =
     (case log_level of
        PStr l \<Rightarrow>
          (let level = (case logging_attr env (str_upper env l) of
                          None \<Rightarrow> PInt 20
                        | Some v \<Rightarrow> v)
           in case log_path of
                PStr path \<Rightarrow>
                  (case make_log_dir env path of
                     Some e \<Rightarrow> Some e
                   | None \<Rightarrow>
                       (case check_level (builtin_repr env) level of
                          Some e \<Rightarrow> Some e
                        | None \<Rightarrow> open_log env path))
              | _ \<Rightarrow> Some (Raise TypeError
                      (''expected str, bytes or os.PathLike object, not '' @
                       type_name log_path)))
      | _ \<Rightarrow> Some (Raise AttributeError
                (quoted (type_name log_level) @ '' object has no attribute '' @
                 quoted ''upper'')))"

text \<open>
  \<open>json.dumps\<close> raises \<open>TypeError\<close> at the first object it cannot encode; the result here
  is that object's class name, \<open>None\<close> when the value encodes.
\<close>

fun first_some :: "'a option list \<Rightarrow> 'a option" where
  "first_some [] = None"
| "first_some (None # xs) = first_some xs"
| "first_some (Some x # xs) = Some x"

fun json_unencodable :: "pyval \<Rightarrow> string option" where
  "json_unencodable PNone = None"
| "json_unencodable (PBool b) = None"
| "json_unencodable (PInt i) = None"
| "json_unencodable (PFloat f) = None"
| "json_unencodable (PStr s) = None"
| "json_unencodable (PList xs) = first_some (map json_unencodable xs)"
| "json_unencodable (PDict d) = first_some (map (\<lambda>kv. json_unencodable (snd kv)) d)"
| "json_unencodable (PObj t) = Some t"

definition json_dumps_error :: "(string \<times> pyval) list \<Rightarrow> py_exception option" where
  "json_dumps_error d =
     (case json_unencodable (PDict d) of
        None \<Rightarrow> None
      | Some t \<Rightarrow> Some (Raise TypeError (''Object of type '' @ t @ '' is not JSON serializable'')))"

text \<open>
  \<open>log_interaction\<close> and \<open>log_error\<close> encode their record before they emit it;
  \<open>metadata or {}\<close> and \<open>details or {}\<close> are the dictionary itself or \<open>{}\<close>.
\<close>

definition log_interaction ::
  "pyval \<Rightarrow> string \<Rightarrow> string \<Rightarrow> (string \<times> pyval) list \<Rightarrow> py_exception + event" where
  "log_interaction request response provider metadata =
     (case json_dumps_error
             [(''request'', request), (''response'', PStr response),
              (''provider'', PStr provider), (''metadata'', PDict metadata)] of
        Some e \<Rightarrow> Inl e
      | None \<Rightarrow> Inr (LogInteraction request response provider metadata))"

definition log_error ::
  "string \<Rightarrow> string \<Rightarrow> (string \<times> pyval) list \<Rightarrow> py_exception + event" where
  "log_error error_message error_type details =
     (case json_dumps_error
             [(''error_type'', PStr error_type), (''error_message'', PStr error_message),
              (''details'', PDict details)] of
        Some e \<Rightarrow> Inl e
      | None \<Rightarrow> Inr (LogError error_message error_type details))"

section \<open>Request processor (core/processor.py)\<close>

record RequestProcessor =
  config :: Config
  providers :: "(string \<times> AIProvider) list"
  default_provider :: "AIProvider option"

text \<open>
  \<open>_initialize_providers\<close>: two \<open>try\<close> blocks, each of which turns any exception into a
  warning and leaves the registry as it was.  \<open>gemini_config.get\<close> on a truthy value that
  is not a dictionary is an \<open>AttributeError\<close>.
\<close>

definition initialize_gemini ::
  "environment \<Rightarrow> Config \<Rightarrow> (string \<times> AIProvider) list
     \<Rightarrow> (string \<times> AIProvider) list \<times> event list" where
  "initialize_gemini env cfg registry =
     (case get_provider_config cfg ''gemini'' of
        Inl e \<Rightarrow>
          (registry, [LogWarning (''Failed to initialize Gemini provider: '' @ exc_str e)])
      | Inr gemini_config \<Rightarrow>
          (case gemini_config of
             PDict d \<Rightarrow>
               if truthy (dict_get d ''api_key'')
               then (case GeminiProvider_init env
                            (new_AIProviderConfig
                               (dict_get d ''api_key'')
                               (dict_get_default d ''model'' (PStr ''gemini-pro''))
                               (dict_get_default d ''temperature'' (PFloat (7 / 10)))
                               (dict_get d ''max_tokens'')) of
                       (Inl e, evs) \<Rightarrow>
                         (registry,
                          evs @ [LogWarning (''Failed to initialize Gemini provider: '' @ exc_str e)])
                     | (Inr p, evs) \<Rightarrow>
                         (dict_setitem ''gemini'' p registry,
                          evs @ [LogInfo ''Gemini provider initialized successfully'']))
               else (registry, [])
           | _ \<Rightarrow>
               (registry,
                [LogWarning (''Failed to initialize Gemini provider: '' @
                   quoted (type_name gemini_config) @ '' object has no attribute '' @
                   quoted ''get'')])))"

definition initialize_openai ::
  "environment \<Rightarrow> Config \<Rightarrow> (string \<times> AIProvider) list
     \<Rightarrow> (string \<times> AIProvider) list \<times> event list" where
  "initialize_openai env cfg registry =
     (case get_provider_config cfg ''openai'' of
        Inl e \<Rightarrow>
          (registry, [LogWarning (''Failed to initialize GPT provider: '' @ exc_str e)])
      | Inr openai_config \<Rightarrow>
          (case openai_config of
             PDict d \<Rightarrow>
               if truthy (dict_get d ''api_key'')
               then (case GPTProvider_init env
                            (new_AIProviderConfig
                               (dict_get d ''api_key'')
                               (dict_get_default d ''model'' (PStr ''gpt-3.5-turbo''))
                               (dict_get_default d ''temperature'' (PFloat (7 / 10)))
                               (dict_get d ''max_tokens'')) of
                       (Inl e, evs) \<Rightarrow>
                         (registry,
                          evs @ [LogWarning (''Failed to initialize GPT provider: '' @ exc_str e)])
                     | (Inr p, evs) \<Rightarrow>
                         (dict_setitem ''gpt'' p registry,
                          evs @ [LogInfo ''GPT provider initialized successfully'']))
               else (registry, [])
           | _ \<Rightarrow>
               (registry,
                [LogWarning (''Failed to initialize GPT provider: '' @
                   quoted (type_name openai_config) @ '' object has no attribute '' @
                   quoted ''get'')])))"

definition initialize_providers ::
  "environment \<Rightarrow> Config \<Rightarrow> (string \<times> AIProvider) list \<times> event list" where
  "initialize_providers env cfg =
     (case initialize_gemini env cfg [] of
        (registry, evs) \<Rightarrow>
          (case initialize_openai env cfg registry of
             (registry', evs') \<Rightarrow> (registry', evs @ evs')))"

text \<open>
  \<open>self.providers.get(name)\<close> for a name that is any configuration value: the keys are
  strings, so only a string can be found; an unhashable name raises before that.
  \<open>next(iter(self.providers.values()), None)\<close> is the first-inserted provider.
\<close>

definition registry_get :: "(string \<times> AIProvider) list \<Rightarrow> pyval \<Rightarrow> AIProvider option" where
  "registry_get registry name = (case name of PStr n \<Rightarrow> map_of registry n | _ \<Rightarrow> None)"

definition first_provider :: "(string \<times> AIProvider) list \<Rightarrow> AIProvider option" where
  "first_provider registry = (case registry of [] \<Rightarrow> None | kp # _ \<Rightarrow> Some (snd kp))"

text \<open>The rest of \<open>__init__\<close> after the registry is populated: the default provider.\<close>

definition init_default_provider ::
  "environment \<Rightarrow> Config \<Rightarrow> (string \<times> AIProvider) list
     \<Rightarrow> py_exception + (AIProvider option \<times> event list)" where
  "init_default_provider env cfg registry =
     (let default_provider_name = Config_get cfg ''default_provider'' (PStr ''gemini'') in
      if \<not> hashable default_provider_name
      then Inl (Raise TypeError (''unhashable type: '' @ quoted (type_name default_provider_name)))
      else
        (case (case registry_get registry default_provider_name of
                 Some p \<Rightarrow> (Some p, [])
               | None \<Rightarrow>
                   (first_provider registry,
                    [LogWarning (''Default provider '' @
                       quoted (format_value (builtin_str env) default_provider_name) @
                       '' not available. '' @ ''Using first available provider.'')])) of
           (Some p, evs) \<Rightarrow> Inr (Some p, evs)
         | (None, evs) \<Rightarrow>
             (case log_error ''No AI providers available'' ''initialization_error''
                     [(''configured_providers'', PList (map (\<lambda>kp. PStr (fst kp)) registry))] of
                Inl e \<Rightarrow> Inl e
              | Inr ev \<Rightarrow> Inr (None, evs @ [ev]))))"

text \<open>
  \<open>RequestProcessor.__init__\<close>; \<open>config or Config()\<close> loads the environment when no
  configuration is passed.
\<close>

definition RequestProcessor_init ::
  "environment \<Rightarrow> Config option \<Rightarrow> (py_exception + RequestProcessor) \<times> event list" where
  "RequestProcessor_init env config_arg =
     (let cfg = (case config_arg of Some c \<Rightarrow> c | None \<Rightarrow> load_from_env (getenv env)) in
      case InteractionLogger_init env
             (Config_get cfg ''log_path'' (PStr ''logs/interactions.log''))
             (Config_get cfg ''log_level'' (PStr ''INFO'')) of
        Some e \<Rightarrow> (Inl e, [])
      | None \<Rightarrow>
          (case initialize_providers env cfg of
             (registry, evs) \<Rightarrow>
               (case init_default_provider env cfg registry of
                  Inl e \<Rightarrow> (Inl e, evs)
                | Inr (d, evs') \<Rightarrow>
                    (Inr \<lparr>config = cfg, providers = registry, default_provider = d\<rparr>,
                     evs @ evs'))))"

text \<open>\<open>_select_provider\<close>: \<open>if provider_name:\<close> is false for \<open>None\<close> and for \<open>''''\<close>.\<close>

definition select_provider ::
  "RequestProcessor \<Rightarrow> string option \<Rightarrow> AIProvider option \<times> event list" where
  "select_provider self provider_name =
     (case provider_name of
        None \<Rightarrow> (default_provider self, [])
      | Some n \<Rightarrow>
          if n \<noteq> []
          then (case map_of (providers self) n of
                  None \<Rightarrow>
                    (default_provider self,
                     [LogWarning (''Requested provider '' @ quoted n @ '' not available. '' @
                        ''Falling back to default.'')])
                | Some p \<Rightarrow> (Some p, []))
          else (default_provider self, []))"

text \<open>
  \<open>process_request\<close>.  The provider's \<open>generate_response\<close> is the abstract method of
  \<open>AIProvider\<close>: a parameter that returns the text or the exception raised (of class
  \<open>Exception\<close> or below; a cancellation of the coroutine is outside this model).  The
  envelope is the dictionary the source builds.
\<close>

type_synonym generate =
  "AIProvider \<Rightarrow> pyval \<Rightarrow> context_map option \<Rightarrow> history option \<Rightarrow> py_exception + string"

type_synonym envelope = "(string \<times> pyval) list"

definition bool_history :: "history option \<Rightarrow> bool" where
  "bool_history h = (case h of None \<Rightarrow> False | Some xs \<Rightarrow> xs \<noteq> [])"

definition context_value :: "context_map option \<Rightarrow> pyval" where
  "context_value c = (case c of None \<Rightarrow> PNone | Some d \<Rightarrow> PDict d)"

text \<open>The two \<open>except\<close> clauses, tried in the source's order.\<close>

definition handle_exception ::
  "AIProvider \<Rightarrow> pyval \<Rightarrow> event list \<Rightarrow> py_exception
     \<Rightarrow> (py_exception + envelope) \<times> event list" where
  "handle_exception provider request evs e =
     (if exc_class_of e = ProviderException
      then (case log_error (exc_str e) ''provider_error''
                   [(''provider'', PStr (get_provider_name provider)), (''request'', request)] of
              Inl e' \<Rightarrow> (Inl e', evs)
            | Inr ev \<Rightarrow>
                (Inr [(''success'', PBool False),
                      (''error'', PStr (exc_str e)),
                      (''provider'', PStr (get_provider_name provider)),
                      (''request'', request)],
                 evs @ [ev]))
      else (case log_error (exc_str e) ''unexpected_error''
                   [(''provider'', PStr (get_provider_name provider)), (''request'', request)] of
              Inl e' \<Rightarrow> (Inl e', evs)
            | Inr ev \<Rightarrow>
                (Inr [(''success'', PBool False),
                      (''error'', PStr (''Unexpected error: '' @ exc_str e)),
                      (''provider'', PStr (get_provider_name provider)),
                      (''request'', request)],
                 evs @ [ev])))"

definition process_request ::
  "generate \<Rightarrow> RequestProcessor \<Rightarrow> pyval \<Rightarrow> context_map option \<Rightarrow> history option
     \<Rightarrow> string option \<Rightarrow> (py_exception + envelope) \<times> event list" where
  "process_request gen self request context conversation_history provider_name =
     (if \<not> truthy request \<or> \<not> is_str request
      then (Inl (Raise ValidationException ''Request must be a non-empty string''), [])
      else
        (case select_provider self provider_name of
           (None, evs) \<Rightarrow>
             (case log_error ''No AI provider available'' ''provider_error'' [] of
                Inl e \<Rightarrow> (Inl e, evs)
              | Inr ev \<Rightarrow>
                  (Inr [(''success'', PBool False),
                        (''error'', PStr ''No AI provider available''),
                        (''request'', request)],
                   evs @ [ev]))
         | (Some provider, evs) \<Rightarrow>
             (let evs = evs @
                    [LogInfo (''Processing request with '' @ get_provider_name provider @
                       '' provider''),
                     GenerateResponse provider request context conversation_history]
              in case gen provider request context conversation_history of
                   Inl e \<Rightarrow> handle_exception provider request evs e
                 | Inr response \<Rightarrow>
                     (case log_interaction request response (get_provider_name provider)
                             [(''context'', context_value context),
                              (''has_history'', PBool (bool_history conversation_history))] of
                        Inl e \<Rightarrow> handle_exception provider request evs e
                      | Inr ev \<Rightarrow>
                          (Inr [(''success'', PBool True),
                                (''response'', PStr response),
                                (''provider'', PStr (get_provider_name provider)),
                                (''request'', request)],
                           evs @ [ev])))))"

text \<open>\<open>get_available_providers\<close> and \<open>switch_default_provider\<close>.\<close>

definition get_available_providers :: "RequestProcessor \<Rightarrow> string list" where
  "get_available_providers self = map fst (providers self)"

definition switch_default_provider ::
  "RequestProcessor \<Rightarrow> string \<Rightarrow> bool \<times> RequestProcessor \<times> event list" where
  "switch_default_provider self provider_name =
     (case map_of (providers self) provider_name of
        Some provider \<Rightarrow>
          (True, self\<lparr>default_provider := Some provider\<rparr>,
           [LogInfo (''Default provider switched to: '' @ provider_name)])
      | None \<Rightarrow>
          (False, self,
           [LogWarning (''Cannot switch to unavailable provider: '' @ provider_name)]))"

section \<open>Notions used to state the properties\<close>

subsection \<open>Paths in the configuration store\<close>

text \<open>
  What is stored at a path: the walk through nested dictionaries, with no treatment of
  \<open>None\<close>.  \<open>None\<close> (of the option) means that some segment is absent or that the walk had
  to go through a value that is not a dictionary.
\<close>

fun stored_at :: "pyval \<Rightarrow> string list \<Rightarrow> pyval option" where
  "stored_at v [] = Some v"
| "stored_at v (k # ks) =
     (case v of
        PDict d \<Rightarrow> (case map_of d k of None \<Rightarrow> None | Some v' \<Rightarrow> stored_at v' ks)
      | _ \<Rightarrow> None)"

text \<open>The traversal of a key hits an absent segment or a value that is not a mapping.\<close>

fun hits_gap :: "pyval \<Rightarrow> string list \<Rightarrow> bool" where
  "hits_gap v [] = False"
| "hits_gap v (k # ks) =
     (case v of
        PDict d \<Rightarrow> (case map_of d k of None \<Rightarrow> True | Some v' \<Rightarrow> hits_gap v' ks)
      | _ \<Rightarrow> True)"

text \<open>
  A path is clear for \<open>set\<close> when every segment before the last is either absent (from
  there on mappings are created) or bound to a mapping, starting from a store that is a
  mapping.
\<close>

fun set_path_clear :: "pyval \<Rightarrow> string list \<Rightarrow> bool" where
  "set_path_clear v [] = False"
| "set_path_clear v [k] = is_dict v"
| "set_path_clear v (k # k' # ks) =
     (case v of
        PDict d \<Rightarrow>
          (case map_of d k of None \<Rightarrow> True | Some c \<Rightarrow> set_path_clear c (k' # ks))
      | _ \<Rightarrow> False)"

subsection \<open>Order of occurrence in a text\<close>

text \<open>
  \<open>in_order segs text\<close>: the segments occur in \<open>text\<close> one after the other, in the order
  of the list and without overlapping.
\<close>

function in_order :: "string list \<Rightarrow> string \<Rightarrow> bool" where
  "in_order [] t = True"
| "in_order (s # ss) [] = (s = [] \<and> in_order ss [])"
| "in_order (s # ss) (c # t) =
     ((starts_with (c # t) s \<and> in_order ss (drop (length s) (c # t)))
      \<or> in_order (s # ss) t)"
  by pat_completeness auto
termination
  by (relation "measure (\<lambda>(ss, t). length ss + length t)") auto

definition context_items :: "context_map option \<Rightarrow> (string \<times> pyval) list" where
  "context_items c = (case c of None \<Rightarrow> [] | Some d \<Rightarrow> d)"

definition history_items :: "history option \<Rightarrow> (string \<times> string) list list" where
  "history_items h = (case h of None \<Rightarrow> [] | Some xs \<Rightarrow> xs)"

subsection \<open>Observations on a call of the processor\<close>

text \<open>The providers whose \<open>generate_response\<close> was called, and the warnings logged.\<close>

fun invoked :: "event list \<Rightarrow> AIProvider list" where
  "invoked [] = []"
| "invoked (GenerateResponse p r c h # es) = p # invoked es"
| "invoked (e # es) = invoked es"

fun warnings :: "event list \<Rightarrow> string list" where
  "warnings [] = []"
| "warnings (LogWarning m # es) = m # warnings es"
| "warnings (e # es) = warnings es"

text \<open>
  A call used provider \<open>q\<close>: exactly that provider was invoked, the call returned an
  envelope, and the envelope's \<open>provider\<close> field is that provider's name.  With \<open>q = None\<close>:
  no provider was invoked and the envelope has no such field.
\<close>

definition used_provider ::
  "AIProvider option \<Rightarrow> (py_exception + envelope) \<times> event list \<Rightarrow> bool" where
  "used_provider q r =
     (invoked (snd r) = (case q of None \<Rightarrow> [] | Some p \<Rightarrow> [p]) \<and>
      (case fst r of
         Inl e \<Rightarrow> False
       | Inr env \<Rightarrow>
           map_of env ''provider'' =
             (case q of None \<Rightarrow> None | Some p \<Rightarrow> Some (PStr (get_provider_name p)))))"

text \<open>
  The life of a processor: constructed, then its default switched any number of times.
  Nothing else in the source writes the registry or the default.
\<close>

fun switch_all :: "RequestProcessor \<Rightarrow> string list \<Rightarrow> RequestProcessor" where
  "switch_all self [] = self"
| "switch_all self (n # ns) = switch_all (fst (snd (switch_default_provider self n))) ns"

definition processor_after ::
  "environment \<Rightarrow> Config option \<Rightarrow> string list \<Rightarrow> RequestProcessor option" where
  "processor_after env config_arg names =
     (case fst (RequestProcessor_init env config_arg) of
        Inl e \<Rightarrow> None
      | Inr self \<Rightarrow> Some (switch_all self names))"

text \<open>
  What holds of every such processor: a provider sits under its own name, and the default
  is a registered provider, missing only when the registry is empty.
\<close>

definition keyed_by_name :: "(string \<times> AIProvider) list \<Rightarrow> bool" where
  "keyed_by_name registry = (\<forall>n p. map_of registry n = Some p \<longrightarrow> get_provider_name p = n)"

definition registry_inv :: "RequestProcessor \<Rightarrow> bool" where
  "registry_inv self =
     ((\<forall>n p. map_of (providers self) n = Some p \<longrightarrow> get_provider_name p = n) \<and>
      (case default_provider self of
         None \<Rightarrow> providers self = []
       | Some p \<Rightarrow> map_of (providers self) (get_provider_name p) = Some p))"

subsection \<open>Concrete surroundings for the examples\<close>

definition no_environ :: "string \<Rightarrow> string option" where
  "no_environ name = None"

definition gemini_environ :: "string \<Rightarrow> string option" where
  "gemini_environ name = (if name = ''GEMINI_API_KEY'' then Some ''k1'' else None)"

definition sdk_ok :: "AIProviderConfig \<Rightarrow> py_exception option" where
  "sdk_ok c = None"

definition log_ok :: "string \<Rightarrow> py_exception option" where
  "log_ok path = None"

definition repr_stub :: "pyval \<Rightarrow> string" where
  "repr_stub v = type_name v"

text \<open>
  The attributes of the \<open>logging\<close> module whose names are upper case (CPython 3.11):
  the levels, the format string \<open>BASIC_FORMAT\<close> and the table \<open>_STYLES\<close> (a dictionary
  of classes, kept as an opaque object).
\<close>

definition stdlib_logging_attr :: "string \<Rightarrow> pyval option" where
  "stdlib_logging_attr =
     map_of [(''BASIC_FORMAT'', PStr ''%(levelname)s:%(name)s:%(message)s''),
             (''CRITICAL'', PInt 50), (''DEBUG'', PInt 10), (''ERROR'', PInt 40),
             (''FATAL'', PInt 50), (''INFO'', PInt 20), (''NOTSET'', PInt 0),
             (''WARN'', PInt 30), (''WARNING'', PInt 30), (''_STYLES'', PObj ''dict'')]"

text \<open>\<open>str.upper\<close> on ASCII text.\<close>

definition ascii_upper :: "string \<Rightarrow> string" where
  "ascii_upper s =
     map (\<lambda>c. case map_of (zip ''abcdefghijklmnopqrstuvwxyz'' ''ABCDEFGHIJKLMNOPQRSTUVWXYZ'') c of
                None \<Rightarrow> c
              | Some u \<Rightarrow> u) s"

text \<open>
  A run with the given process environment, in which the client libraries are installed
  and the log file can be written.
\<close>

definition stdlib_env :: "(string \<Rightarrow> string option) \<Rightarrow> environment" where
  "stdlib_env vars =
     \<lparr>getenv = vars, gemini_sdk = sdk_ok, openai_sdk = sdk_ok,
      logging_attr = stdlib_logging_attr, make_log_dir = log_ok, open_log = log_ok,
      str_upper = ascii_upper, builtin_str = repr_stub, builtin_repr = repr_stub\<rparr>"

definition bare_env :: environment where
  "bare_env = stdlib_env no_environ"

definition gemini_env :: environment where
  "gemini_env = stdlib_env gemini_environ"

text \<open>
  Two more process environments: both API keys with \<open>gpt\<close> as the configured default,
  and the Gemini key alone with \<open>gpt\<close> as the configured default.
\<close>

definition both_environ :: "string \<Rightarrow> string option" where
  "both_environ name =
     (if name = ''GEMINI_API_KEY'' then Some ''k1''
      else if name = ''OPENAI_API_KEY'' then Some ''k2''
      else if name = ''DEFAULT_AI_PROVIDER'' then Some ''gpt''
      else None)"

definition gpt_default_environ :: "string \<Rightarrow> string option" where
  "gpt_default_environ name =
     (if name = ''GEMINI_API_KEY'' then Some ''k1''
      else if name = ''DEFAULT_AI_PROVIDER'' then Some ''gpt''
      else None)"

definition gpt_provider :: AIProvider where
  "gpt_provider =
     \<lparr>provider_class = GPTProvider,
      provider_config = new_AIProviderConfig (PStr ''k2'') (PStr ''gpt-3.5-turbo'')
                          (PFloat (7 / 10)) PNone,
      provider_client = Some (AsyncOpenAI (PStr ''k2''))\<rparr>"

definition gemini_provider :: AIProvider where
  "gemini_provider =
     \<lparr>provider_class = GeminiProvider,
      provider_config = new_AIProviderConfig (PStr ''k1'') (PStr ''gemini-pro'')
                          (PFloat (7 / 10)) PNone,
      provider_client = Some (GenerativeModel (PStr ''gemini-pro''))\<rparr>"

definition gemini_processor :: RequestProcessor where
  "gemini_processor =
     \<lparr>config = load_from_env gemini_environ,
      providers = [(''gemini'', gemini_provider)],
      default_provider = Some gemini_provider\<rparr>"

definition bare_processor :: RequestProcessor where
  "bare_processor =
     \<lparr>config = load_from_env no_environ, providers = [], default_provider = None\<rparr>"

text \<open>Two behaviours of a provider: it answers, or it raises a given exception.\<close>

definition answers :: generate where
  "answers p request c h = Inr ''ok''"

definition fails_with :: "py_exception \<Rightarrow> generate" where
  "fails_with e p request c h = Inl e"

section \<open>The configuration store: reading back what was written\<close>

lemma map_of_dict_setitem: "map_of (dict_setitem k v d) = (map_of d)(k \<mapsto> v)"
  by (induction d) (auto simp: fun_eq_iff)

lemma dict_get_setitem: "dict_get (dict_setitem k v d) k = v"
  by (simp add: dict_get_def map_of_dict_setitem)

lemma set_loop_not_dict:
  "\<not> is_dict c \<Longrightarrow> set_loop c (k # ks) v = Inl (Raise TypeError (set_type_error c k (ks = [])))"
  by (cases c; cases ks) simp_all

lemma set_loop_is_dict: "set_loop c ks v = Inr c' \<Longrightarrow> is_dict c'"
proof (induction ks arbitrary: c c')
  case Nil
  then show ?case by simp
next
  case (Cons k ks)
  show ?case
  proof (cases c)
    case (PDict d)
    show ?thesis
    proof (cases ks)
      case Nil
      with PDict Cons.prems show ?thesis by auto
    next
      case (Cons k' ks')
      with PDict Cons.prems show ?thesis by (auto split: sum.splits)
    qed
  qed (use Cons.prems set_loop_not_dict[of c k ks v] in auto)
qed

lemma set_loop_fresh: "ks \<noteq> [] \<Longrightarrow> \<exists>c'. set_loop (PDict []) ks v = Inr c'"
proof (induction ks)
  case Nil
  then show ?case by simp
next
  case (Cons k ks)
  then show ?case by (cases ks) auto
qed

lemma set_loop_clear: "set_path_clear c ks \<Longrightarrow> \<exists>c'. set_loop c ks v = Inr c'"
proof (induction ks arbitrary: c)
  case Nil
  then show ?case by simp
next
  case (Cons k ks)
  from Cons.prems obtain d where c: "c = PDict d" by (cases c; cases ks) auto
  show ?case
  proof (cases ks)
    case Nil
    with c show ?thesis by simp
  next
    case ks: (Cons k' ks')
    show ?thesis
    proof (cases "map_of d k")
      case None
      from set_loop_fresh[of "k' # ks'" v] obtain c' where "set_loop (PDict []) (k' # ks') v = Inr c'"
        by auto
      with None c ks show ?thesis by simp
    next
      case (Some ch)
      with Cons.prems c ks have "set_path_clear ch ks" by simp
      from Cons.IH[OF this] obtain c' where "set_loop ch ks v = Inr c'" by auto
      with Some c ks show ?thesis by simp
    qed
  qed
qed

lemma set_loop_blocked:
  "\<not> set_path_clear c ks \<Longrightarrow> \<exists>e. set_loop c ks v = Inl e"
proof (induction ks arbitrary: c)
  case Nil
  then show ?case by simp
next
  case (Cons k ks)
  show ?case
  proof (cases c)
    case (PDict d)
    with Cons.prems obtain k' ks' where ks: "ks = k' # ks'" by (cases ks) auto
    with Cons.prems PDict obtain ch where ch: "map_of d k = Some ch" "\<not> set_path_clear ch ks"
      by (auto split: option.splits)
    from Cons.IH[OF ch(2)] obtain e where "set_loop ch ks v = Inl e" by auto
    with ch PDict ks show ?thesis by simp
  qed (use set_loop_not_dict[of c k ks v] in auto)
qed

lemma get_after_set_loop:
  "set_loop c ks v = Inr c' \<Longrightarrow> get_loop c' ks dflt = (if v = PNone then dflt else v)"
proof (induction ks arbitrary: c c')
  case Nil
  then show ?case by simp
next
  case (Cons k ks)
  from Cons.prems obtain d where c: "c = PDict d"
    using set_loop_not_dict[of c k ks v] by (cases c) auto
  show ?case
  proof (cases ks)
    case Nil
    with c Cons.prems show ?thesis by (auto simp: dict_get_setitem)
  next
    case ks: (Cons k' ks')
    let ?child = "case map_of d k of None \<Rightarrow> PDict [] | Some x \<Rightarrow> x"
    from Cons.prems c ks obtain child' where
      ch: "set_loop ?child ks v = Inr child'" and c': "c' = PDict (dict_setitem k child' d)"
      by (auto split: sum.splits)
    from set_loop_is_dict[OF ch] have "child' \<noteq> PNone" by auto
    with Cons.IH[OF ch] c' show ?thesis by (simp add: dict_get_setitem)
  qed
qed

lemma get_loop_Cons:
  "get_loop (PDict d) (k # ks) dflt =
     (case map_of d k of None \<Rightarrow> dflt
      | Some v' \<Rightarrow> if v' = PNone then dflt else get_loop v' ks dflt)"
  by (simp add: dict_get_def split: option.splits)

lemma get_loop_gap: "hits_gap c ks \<Longrightarrow> get_loop c ks dflt = dflt"
proof (induction ks arbitrary: c)
  case Nil
  then show ?case by simp
next
  case (Cons k ks)
  show ?case
  proof (cases c)
    case (PDict d)
    with Cons show ?thesis
      by (auto simp: get_loop_Cons simp del: get_loop.simps split: option.splits)
  qed (simp_all)
qed

lemma get_loop_stored:
  "ks \<noteq> [] \<Longrightarrow> get_loop c ks dflt =
     (case stored_at c ks of None \<Rightarrow> dflt | Some v \<Rightarrow> if v = PNone then dflt else v)"
proof (induction ks arbitrary: c)
  case Nil
  then show ?case by simp
next
  case (Cons k ks)
  show ?case
  proof (cases c)
    case (PDict d)
    show ?thesis
    proof (cases "map_of d k")
      case None
      with PDict show ?thesis by (simp add: get_loop_Cons del: get_loop.simps)
    next
      case (Some v')
      show ?thesis
      proof (cases ks)
        case Nil
        with PDict Some show ?thesis by (simp add: dict_get_def)
      next
        case ks: (Cons k' ks')
        then have "ks \<noteq> []" by simp
        from Cons.IH[OF this, of v'] PDict Some ks show ?thesis
          by (cases v') (simp_all add: get_loop_Cons del: get_loop.simps)
      qed
    qed
  qed (simp_all)
qed

lemma split_on_nonempty: "split_on c s \<noteq> []"
  by (induction s) (auto split: list.splits)


lemma stored_after_set_loop: "set_loop c ks v = Inr c' \<Longrightarrow> stored_at c' ks = Some v"
proof (induction ks arbitrary: c c')
  case Nil
  then show ?case by simp
next
  case (Cons k ks)
  from Cons.prems obtain d where c: "c = PDict d"
    using set_loop_not_dict[of c k ks v] by (cases c) auto
  show ?case
  proof (cases ks)
    case Nil
    with c Cons.prems show ?thesis by (auto simp: map_of_dict_setitem)
  next
    case ks: (Cons k' ks')
    let ?child = "case map_of d k of None \<Rightarrow> PDict [] | Some x \<Rightarrow> x"
    from Cons.prems c ks obtain child' where
      ch: "set_loop ?child ks v = Inr child'" and c': "c' = PDict (dict_setitem k child' d)"
      by (auto split: sum.splits)
    with Cons.IH[OF ch] c' show ?thesis by (simp add: map_of_dict_setitem)
  qed
qed

text \<open>
  Claim C7, as the code has it.  When the path of the key is clear (every segment before
  the last is absent or bound to a mapping), \<open>set\<close> returns, and \<open>get\<close> of the same key
  then returns the value written: with the one-argument \<open>get\<close> for every value, with any
  default for every value other than \<open>None\<close>.  And whenever the traversal of a key hits
  an absent segment or a value that is not a mapping, \<open>get\<close> returns the default.
\<close>

theorem config_set_get_roundtrip:
  "(set_path_clear (config_data cfg) (split_on CHR ''.'' key) \<longrightarrow>
      (\<exists>cfg'. Config_set cfg key v = Inr cfg' \<and> Config_get cfg' key PNone = v \<and>
               (v \<noteq> PNone \<longrightarrow> Config_get cfg' key dflt = v))) \<and>
   (hits_gap (config_data cfg) (split_on CHR ''.'' key) \<longrightarrow> Config_get cfg key dflt = dflt)"
proof (intro conjI impI)
  assume "set_path_clear (config_data cfg) (split_on CHR ''.'' key)"
  from set_loop_clear[OF this, of v] obtain c' where
    c': "set_loop (config_data cfg) (split_on CHR ''.'' key) v = Inr c'" by auto
  have "Config_set cfg key v = Inr (cfg\<lparr>config_data := c'\<rparr>)"
    by (simp add: Config_set_def c')
  moreover have "Config_get (cfg\<lparr>config_data := c'\<rparr>) key d = (if v = PNone then d else v)" for d
    by (simp add: Config_get_def get_after_set_loop[OF c'])
  ultimately show "\<exists>cfg'. Config_set cfg key v = Inr cfg' \<and> Config_get cfg' key PNone = v \<and>
               (v \<noteq> PNone \<longrightarrow> Config_get cfg' key dflt = v)"
    by auto
next
  assume "hits_gap (config_data cfg) (split_on CHR ''.'' key)"
  then show "Config_get cfg key dflt = dflt"
    by (simp add: Config_get_def get_loop_gap)
qed

text \<open>
  The two examples of claim C7 on the empty store: \<open>set("a.b.c", 42)\<close> then
  \<open>get("a.b.c")\<close> is 42, and \<open>get("missing.key", "D")\<close> is \<open>"D"\<close>.
\<close>

theorem config_set_get_roundtrip_witness:
  "set_path_clear (config_data \<lparr>config_data = PDict []\<rparr>) (split_on CHR ''.'' ''a.b.c'') \<and>
   Config_get (projr (Config_set \<lparr>config_data = PDict []\<rparr> ''a.b.c'' (PInt 42))) ''a.b.c'' PNone
     = PInt 42 \<and>
   hits_gap (config_data \<lparr>config_data = PDict []\<rparr>) (split_on CHR ''.'' ''missing.key'') \<and>
   Config_get \<lparr>config_data = PDict []\<rparr> ''missing.key'' (PStr ''D'') = PStr ''D''"
proof -
  have clear: "set_path_clear (config_data \<lparr>config_data = PDict []\<rparr>) (split_on CHR ''.'' ''a.b.c'')"
    by simp
  have gap: "hits_gap (config_data \<lparr>config_data = PDict []\<rparr>) (split_on CHR ''.'' ''missing.key'')"
    by simp
  from config_set_get_roundtrip[of "\<lparr>config_data = PDict []\<rparr>" "''a.b.c''" "PInt 42" PNone] clear
  have "Config_get (projr (Config_set \<lparr>config_data = PDict []\<rparr> ''a.b.c'' (PInt 42))) ''a.b.c'' PNone
     = PInt 42"
    by auto
  moreover from config_set_get_roundtrip[of "\<lparr>config_data = PDict []\<rparr>" "''missing.key''" PNone "PStr ''D''"] gap
  have "Config_get \<lparr>config_data = PDict []\<rparr> ''missing.key'' (PStr ''D'') = PStr ''D''"
    by blast
  ultimately show ?thesis using clear gap by blast
qed

text \<open>
  Claim C7 as stated, for every key, fails: where a segment before the last is bound to a
  string, as \<open>log_level\<close> is in the store loaded from the environment, \<open>set\<close> raises
  \<open>TypeError\<close> and nothing is written.
\<close>

theorem config_set_blocked_counterexample:
  "Config_set \<lparr>config_data = PDict [(''log_level'', PStr ''INFO'')]\<rparr> ''log_level.x'' (PInt 1)
     = Inl (Raise TypeError (quoted ''str'' @ '' object does not support item assignment''))"
  by (simp add: Config_set_def)

text \<open>
  Claim C10.  If the value stored at a key is \<open>None\<close>, \<open>get(key, default)\<close> returns the
  default, exactly as it does when nothing is stored there; and after a \<open>set(key, None)\<close>
  that returned, the stored value is \<open>None\<close> and \<open>get(key, default)\<close> is the default, so
  the round trip fails for \<open>None\<close> against any other default.
\<close>

theorem config_none_is_absent:
  "(stored_at (config_data cfg) (split_on CHR ''.'' key) = Some PNone \<longrightarrow>
      Config_get cfg key dflt = dflt) \<and>
   (stored_at (config_data cfg) (split_on CHR ''.'' key) = None \<longrightarrow>
      Config_get cfg key dflt = dflt) \<and>
   (Config_set cfg key PNone = Inr cfg' \<longrightarrow>
      stored_at (config_data cfg') (split_on CHR ''.'' key) = Some PNone \<and>
      Config_get cfg' key dflt = dflt)"
proof -
  have ne: "split_on CHR ''.'' key \<noteq> []" by (rule split_on_nonempty)
  have a: "Config_get c key dflt = dflt"
    if "stored_at (config_data c) (split_on CHR ''.'' key) = Some PNone" for c
    using that by (simp add: Config_get_def get_loop_stored[OF ne])
  have b: "Config_get cfg key dflt = dflt"
    if "stored_at (config_data cfg) (split_on CHR ''.'' key) = None"
    using that by (simp add: Config_get_def get_loop_stored[OF ne])
  have c: "stored_at (config_data cfg') (split_on CHR ''.'' key) = Some PNone"
    if "Config_set cfg key PNone = Inr cfg'"
  proof -
    from that obtain c' where c': "set_loop (config_data cfg) (split_on CHR ''.'' key) PNone = Inr c'"
      and "cfg' = cfg\<lparr>config_data := c'\<rparr>"
      by (auto simp: Config_set_def split: sum.splits)
    with stored_after_set_loop[OF c'] show ?thesis by simp
  qed
  from a b c show ?thesis by blast
qed

text \<open>
  On concrete stores: a key bound to \<open>None\<close>, an absent key, and \<open>set("a.b", None)\<close> on
  the empty store, each read back with the default \<open>"D"\<close>.
\<close>

theorem config_none_is_absent_witness:
  "stored_at (config_data \<lparr>config_data = PDict [(''k'', PNone)]\<rparr>) (split_on CHR ''.'' ''k'')
     = Some PNone \<and>
   Config_get \<lparr>config_data = PDict [(''k'', PNone)]\<rparr> ''k'' (PStr ''D'') = PStr ''D'' \<and>
   stored_at (config_data \<lparr>config_data = PDict [(''k'', PNone)]\<rparr>) (split_on CHR ''.'' ''m'')
     = None \<and>
   Config_get \<lparr>config_data = PDict [(''k'', PNone)]\<rparr> ''m'' (PStr ''D'') = PStr ''D'' \<and>
   Config_set \<lparr>config_data = PDict []\<rparr> ''a.b'' PNone
     = Inr \<lparr>config_data = PDict [(''a'', PDict [(''b'', PNone)])]\<rparr> \<and>
   Config_get \<lparr>config_data = PDict [(''a'', PDict [(''b'', PNone)])]\<rparr> ''a.b'' (PStr ''D'')
     = PStr ''D''"
proof -
  have h1: "stored_at (config_data \<lparr>config_data = PDict [(''k'', PNone)]\<rparr>) (split_on CHR ''.'' ''k'')
     = Some PNone"
    by simp
  have h2: "stored_at (config_data \<lparr>config_data = PDict [(''k'', PNone)]\<rparr>) (split_on CHR ''.'' ''m'')
     = None"
    by simp
  have h3: "Config_set \<lparr>config_data = PDict []\<rparr> ''a.b'' PNone
     = Inr \<lparr>config_data = PDict [(''a'', PDict [(''b'', PNone)])]\<rparr>"
    by (simp add: Config_set_def)
  from config_none_is_absent[of "\<lparr>config_data = PDict [(''k'', PNone)]\<rparr>" "''k''" "PStr ''D''"] h1
  have g1: "Config_get \<lparr>config_data = PDict [(''k'', PNone)]\<rparr> ''k'' (PStr ''D'') = PStr ''D''"
    by blast
  from config_none_is_absent[of "\<lparr>config_data = PDict [(''k'', PNone)]\<rparr>" "''m''" "PStr ''D''"] h2
  have g2: "Config_get \<lparr>config_data = PDict [(''k'', PNone)]\<rparr> ''m'' (PStr ''D'') = PStr ''D''"
    by blast
  from config_none_is_absent[of "\<lparr>config_data = PDict []\<rparr>" "''a.b''" "PStr ''D''"
       "\<lparr>config_data = PDict [(''a'', PDict [(''b'', PNone)])]\<rparr>"] h3
  have g3: "Config_get \<lparr>config_data = PDict [(''a'', PDict [(''b'', PNone)])]\<rparr> ''a.b'' (PStr ''D'')
     = PStr ''D''"
    by blast
  from h1 h2 h3 g1 g2 g3 show ?thesis by blast
qed

section \<open>The registry and the default provider\<close>

text \<open>
  The registry of a constructed processor holds each provider under the name that
  \<open>get_provider_name\<close> gives it, and \<open>__init__\<close> and \<open>switch_default_provider\<close> keep the
  default inside the registry.
\<close>

lemma GeminiProvider_init_class:
  "GeminiProvider_init env c = (Inr p, evs) \<Longrightarrow> get_provider_name p = ''gemini''"
  by (auto simp: GeminiProvider_init_def get_provider_name_def split: option.splits sum.splits)

lemma GPTProvider_init_class:
  "GPTProvider_init env c = (Inr p, evs) \<Longrightarrow> get_provider_name p = ''gpt''"
  by (auto simp: GPTProvider_init_def get_provider_name_def split: option.splits sum.splits)

lemma keyed_by_name_setitem:
  "keyed_by_name r \<Longrightarrow> get_provider_name p = n \<Longrightarrow> keyed_by_name (dict_setitem n p r)"
  by (auto simp: keyed_by_name_def map_of_dict_setitem)

lemma initialize_gemini_keyed:
  "initialize_gemini env cfg r = (r', evs) \<Longrightarrow> keyed_by_name r \<Longrightarrow> keyed_by_name r'"
  unfolding initialize_gemini_def
  by (auto split: sum.splits pyval.splits if_splits prod.splits
      intro: keyed_by_name_setitem dest: GeminiProvider_init_class)

lemma initialize_openai_keyed:
  "initialize_openai env cfg r = (r', evs) \<Longrightarrow> keyed_by_name r \<Longrightarrow> keyed_by_name r'"
  unfolding initialize_openai_def
  by (auto split: sum.splits pyval.splits if_splits prod.splits
      intro: keyed_by_name_setitem dest: GPTProvider_init_class)

lemma initialize_providers_keyed:
  "initialize_providers env cfg = (r, evs) \<Longrightarrow> keyed_by_name r"
proof -
  assume a: "initialize_providers env cfg = (r, evs)"
  obtain r1 e1 where g: "initialize_gemini env cfg [] = (r1, e1)" by (cases "initialize_gemini env cfg []")
  obtain r2 e2 where o: "initialize_openai env cfg r1 = (r2, e2)" by (cases "initialize_openai env cfg r1")
  have "keyed_by_name []" by (simp add: keyed_by_name_def)
  from initialize_gemini_keyed[OF g this] have "keyed_by_name r1" .
  from initialize_openai_keyed[OF o this] have "keyed_by_name r2" .
  moreover from a g o have "r = r2" by (simp add: initialize_providers_def)
  ultimately show ?thesis by simp
qed

text \<open>
  The registry is filled in a fixed order, \<open>gemini\<close> before \<open>gpt\<close>: the first-inserted
  provider is the Gemini one when it is there.
\<close>

lemma initialize_gemini_keys:
  "initialize_gemini env cfg [] = (r, evs) \<Longrightarrow> map fst r = [] \<or> map fst r = [''gemini'']"
  unfolding initialize_gemini_def
  by (auto split: sum.splits pyval.splits if_splits prod.splits)

lemma initialize_openai_keys:
  "initialize_openai env cfg r = (r', evs) \<Longrightarrow> r' = r \<or> (\<exists>p. r' = dict_setitem ''gpt'' p r)"
  unfolding initialize_openai_def
  by (auto split: sum.splits pyval.splits if_splits prod.splits)

lemma registry_insertion_order:
  assumes "initialize_providers env cfg = (r, evs)"
  shows "map fst r = [] \<or> map fst r = [''gemini''] \<or> map fst r = [''gpt''] \<or>
         map fst r = [''gemini'', ''gpt'']"
proof -
  obtain r1 e1 where g: "initialize_gemini env cfg [] = (r1, e1)"
    by (cases "initialize_gemini env cfg []")
  obtain r2 e2 where o: "initialize_openai env cfg r1 = (r2, e2)"
    by (cases "initialize_openai env cfg r1")
  from assms g o have r: "r = r2" by (simp add: initialize_providers_def)
  from initialize_gemini_keys[OF g] initialize_openai_keys[OF o] r show ?thesis
    by (cases r1) auto
qed

lemma first_provider_registered:
  "first_provider r = Some p \<Longrightarrow> \<exists>n. map_of r n = Some p"
  by (cases r) (auto simp: first_provider_def)

lemma first_provider_None: "first_provider r = None \<Longrightarrow> r = []"
  by (cases r) (auto simp: first_provider_def)

lemma registry_get_registered:
  "registry_get r name = Some p \<Longrightarrow> \<exists>n. map_of r n = Some p"
  by (cases name) (auto simp: registry_get_def)

lemma init_default_provider_inv:
  assumes "init_default_provider env cfg r = Inr (d, evs)" and "keyed_by_name r"
  shows "case d of None \<Rightarrow> r = [] | Some p \<Rightarrow> map_of r (get_provider_name p) = Some p"
proof (cases d)
  case None
  with assms(1) have "first_provider r = None"
    by (auto simp: init_default_provider_def Let_def split: if_splits option.splits sum.splits)
  with None show ?thesis by (simp add: first_provider_None)
next
  case (Some p)
  with assms(1) have "registry_get r (Config_get cfg ''default_provider'' (PStr ''gemini'')) = Some p
      \<or> first_provider r = Some p"
    by (auto simp: init_default_provider_def Let_def split: if_splits option.splits sum.splits)
  then obtain n where "map_of r n = Some p"
    using first_provider_registered registry_get_registered by blast
  with assms(2) Some show ?thesis by (auto simp: keyed_by_name_def)
qed

lemma RequestProcessor_init_inv:
  assumes "fst (RequestProcessor_init env config_arg) = Inr self"
  shows "registry_inv self"
proof -
  define cfg where "cfg = (case config_arg of Some c \<Rightarrow> c | None \<Rightarrow> load_from_env (getenv env))"
  obtain r evs where ip: "initialize_providers env cfg = (r, evs)"
    by (cases "initialize_providers env cfg")
  from assms obtain d evs' where
    d: "init_default_provider env cfg r = Inr (d, evs')" and
    self: "self = \<lparr>config = cfg, providers = r, default_provider = d\<rparr>"
    by (auto simp: RequestProcessor_init_def Let_def cfg_def[symmetric] ip
        split: option.splits sum.splits prod.splits)
  from initialize_providers_keyed[OF ip] have k: "keyed_by_name r" .
  have p: "providers self = r" and dp: "default_provider self = d"
    by (simp_all add: self)
  show ?thesis
    unfolding registry_inv_def p dp
    using init_default_provider_inv[OF d k] k
    by (simp add: keyed_by_name_def)
qed

lemma switch_default_provider_inv:
  "registry_inv self \<Longrightarrow> registry_inv (fst (snd (switch_default_provider self n)))"
  by (auto simp: registry_inv_def switch_default_provider_def split: option.splits)

lemma switch_all_inv: "registry_inv self \<Longrightarrow> registry_inv (switch_all self ns)"
  by (induction ns arbitrary: self) (simp_all add: switch_default_provider_inv)

lemma processor_after_inv:
  "processor_after env config_arg names = Some self \<Longrightarrow> registry_inv self"
  by (auto simp: processor_after_def split: sum.splits
      intro: switch_all_inv RequestProcessor_init_inv)

section \<open>Processing a request\<close>

text \<open>
  The error records of \<open>process_request\<close> hold strings only, so \<open>log_error\<close> never
  raises there; what a call returns is then read off the selected provider.
\<close>

lemma is_str_encodable: "is_str v \<Longrightarrow> json_unencodable v = None"
  by (cases v) simp_all

lemma log_error_ok:
  "json_unencodable (PDict details) = None \<Longrightarrow>
     log_error m t details = Inr (LogError m t details)"
  by (simp add: log_error_def json_dumps_error_def split: option.splits)

lemma handle_exception_eq:
  assumes "is_str request"
  shows "handle_exception p request evs e =
     (Inr [(''success'', PBool False),
           (''error'', PStr (if exc_class_of e = ProviderException then exc_str e
                            else ''Unexpected error: '' @ exc_str e)),
           (''provider'', PStr (get_provider_name p)),
           (''request'', request)],
      evs @ [LogError (exc_str e)
               (if exc_class_of e = ProviderException then ''provider_error''
                else ''unexpected_error'')
               [(''provider'', PStr (get_provider_name p)), (''request'', request)]])"
proof -
  have "json_unencodable (PDict [(''provider'', PStr (get_provider_name p)), (''request'', request)]) = None"
    using assms by (simp add: is_str_encodable)
  from log_error_ok[OF this] show ?thesis
    by (simp add: handle_exception_def)
qed

lemma invoked_append: "invoked (xs @ ys) = invoked xs @ invoked ys"
  by (induction xs rule: invoked.induct) simp_all

lemma warnings_append: "warnings (xs @ ys) = warnings xs @ warnings ys"
  by (induction xs rule: warnings.induct) simp_all

lemma select_provider_events:
  "select_provider self pn = (q, evs) \<Longrightarrow> invoked evs = []"
  by (auto simp: select_provider_def split: option.splits if_splits)

lemma process_request_without:
  assumes "truthy request" "is_str request" "select_provider self pn = (None, evs)"
  shows "process_request gen self request c h pn =
     (Inr [(''success'', PBool False), (''error'', PStr ''No AI provider available''),
           (''request'', request)],
      evs @ [LogError ''No AI provider available'' ''provider_error'' []])"
proof -
  have "log_error ''No AI provider available'' ''provider_error'' [] =
      Inr (LogError ''No AI provider available'' ''provider_error'' [])"
    by (rule log_error_ok) simp
  with assms show ?thesis by (simp add: process_request_def)
qed

lemma process_request_with:
  assumes "truthy request" "is_str request" "select_provider self pn = (Some p, evs)"
  shows "\<exists>env evs'. process_request gen self request c h pn = (Inr env, evs') \<and>
           map_of env ''provider'' = Some (PStr (get_provider_name p)) \<and>
           invoked evs' = [p] \<and> warnings evs' = warnings evs"
proof -
  let ?evs = "evs @ [LogInfo (''Processing request with '' @ get_provider_name p @ '' provider''),
                     GenerateResponse p request c h]"
  have i: "invoked ?evs = [p]" "warnings ?evs = warnings evs"
    using select_provider_events[OF assms(3)] by (simp_all add: invoked_append warnings_append)
  have h: "\<exists>env evs'. handle_exception p request ?evs e = (Inr env, evs') \<and>
           map_of env ''provider'' = Some (PStr (get_provider_name p)) \<and>
           invoked evs' = [p] \<and> warnings evs' = warnings evs" for e
    using i by (simp add: handle_exception_eq[OF assms(2)] invoked_append warnings_append)
  show ?thesis
  proof (cases "gen p request c h")
    case (Inl e)
    with assms h[of e] show ?thesis by (simp add: process_request_def)
  next
    case (Inr response)
    show ?thesis
    proof (cases "log_interaction request response (get_provider_name p)
                    [(''context'', context_value c), (''has_history'', PBool (bool_history h))]")
      case (Inl e)
      with assms Inr h[of e] show ?thesis by (simp add: process_request_def)
    next
      case ok: (Inr ev)
      then have "ev = LogInteraction request response (get_provider_name p)
                    [(''context'', context_value c), (''has_history'', PBool (bool_history h))]"
        by (auto simp: log_interaction_def split: option.splits)
      with assms Inr ok i show ?thesis
        by (simp add: process_request_def invoked_append warnings_append)
    qed
  qed
qed

lemma used_provider_with:
  assumes "truthy request" "is_str request" "select_provider self pn = (Some p, evs)"
  shows "used_provider (Some p) (process_request gen self request c h pn) \<and>
         warnings (snd (process_request gen self request c h pn)) = warnings evs"
proof -
  from process_request_with[OF assms, of gen c h] obtain env evs' where
    r: "process_request gen self request c h pn = (Inr env, evs')" and
    f: "map_of env ''provider'' = Some (PStr (get_provider_name p))" and
    i: "invoked evs' = [p]" and w: "warnings evs' = warnings evs"
    by blast
  show ?thesis unfolding used_provider_def r using f i w by simp
qed

lemma used_provider_without:
  assumes "truthy request" "is_str request" "select_provider self pn = (None, evs)"
  shows "used_provider None (process_request gen self request c h pn) \<and>
         warnings (snd (process_request gen self request c h pn)) = warnings evs"
  unfolding used_provider_def process_request_without[OF assms]
  using select_provider_events[OF assms(3)]
  by (simp add: invoked_append warnings_append)

lemma used_provider_select:
  assumes "truthy request" "is_str request" "select_provider self pn = (q, evs)"
  shows "used_provider q (process_request gen self request c h pn) \<and>
         warnings (snd (process_request gen self request c h pn)) = warnings evs"
proof (cases q)
  case None
  with assms(3) have "select_provider self pn = (None, evs)" by simp
  from used_provider_without[OF assms(1,2) this] None show ?thesis by simp
next
  case (Some p)
  with assms(3) have "select_provider self pn = (Some p, evs)" by simp
  from used_provider_with[OF assms(1,2) this] Some show ?thesis by simp
qed

text \<open>
  Claim C1, as the code has it.  For a constructed processor and a valid request: a
  given name that is a key of the registry selects the provider registered under it,
  that provider alone is invoked and the envelope's \<open>provider\<close> field is that name; a
  given non-empty name that is no key falls back to the current default provider and
  logs the warning; no name, or the empty name, uses the default provider with no
  warning.
\<close>

theorem select_provider_routing:
  assumes "processor_after env config_arg names = Some self"
    and "truthy request" and "is_str request"
  shows
    "(provider_name = Some n \<and> map_of (providers self) n = Some p \<longrightarrow>
        used_provider (Some p) (process_request gen self request c h provider_name) \<and>
        get_provider_name p = n) \<and>
     (provider_name = Some n \<and> n \<noteq> [] \<and> map_of (providers self) n = None \<longrightarrow>
        used_provider (default_provider self)
          (process_request gen self request c h provider_name) \<and>
        warnings (snd (process_request gen self request c h provider_name)) =
          [''Requested provider '' @ quoted n @ '' not available. '' @
           ''Falling back to default.'']) \<and>
     (provider_name = None \<or> provider_name = Some [] \<longrightarrow>
        used_provider (default_provider self)
          (process_request gen self request c h provider_name) \<and>
        warnings (snd (process_request gen self request c h provider_name)) = [])"
proof (rule conjI[OF impI conjI[OF impI impI]])
  assume a: "provider_name = Some n \<and> map_of (providers self) n = Some p"
  from processor_after_inv[OF assms(1)] a have name: "get_provider_name p = n"
    by (simp add: registry_inv_def)
  then have "n \<noteq> []" by (auto simp: get_provider_name_def split: provider_class.splits)
  with a have "select_provider self provider_name = (Some p, [])"
    by (simp add: select_provider_def)
  from used_provider_select[OF assms(2,3) this] name
  show "used_provider (Some p) (process_request gen self request c h provider_name) \<and>
        get_provider_name p = n" by simp
next
  assume a: "provider_name = Some n \<and> n \<noteq> [] \<and> map_of (providers self) n = None"
  then have "select_provider self provider_name =
      (default_provider self,
       [LogWarning (''Requested provider '' @ quoted n @ '' not available. '' @
                    ''Falling back to default.'')])"
    by (simp add: select_provider_def)
  from used_provider_select[OF assms(2,3) this]
  show "used_provider (default_provider self)
          (process_request gen self request c h provider_name) \<and>
        warnings (snd (process_request gen self request c h provider_name)) =
          [''Requested provider '' @ quoted n @ '' not available. '' @
           ''Falling back to default.'']" by simp
next
  assume "provider_name = None \<or> provider_name = Some []"
  then have "select_provider self provider_name = (default_provider self, [])"
    by (auto simp: select_provider_def)
  from used_provider_select[OF assms(2,3) this]
  show "used_provider (default_provider self)
          (process_request gen self request c h provider_name) \<and>
        warnings (snd (process_request gen self request c h provider_name)) = []" by simp
qed

text \<open>
  Two constructions, evaluated: with only \<open>GEMINI_API_KEY\<close> set the processor has the
  Gemini provider as its registry and default; with no variable set it has no provider.
\<close>

lemma ascii_upper_INFO: "ascii_upper ''INFO'' = ''INFO''"
  by (simp add: ascii_upper_def)

lemma stdlib_logger_ok:
  "InteractionLogger_init (stdlib_env vars) (PStr path) (PStr ''INFO'') = None"
  by (simp add: InteractionLogger_init_def stdlib_env_def ascii_upper_INFO
      stdlib_logging_attr_def check_level_def log_ok_def)

text \<open>
  A level name that turns up another attribute of the module is refused by \<open>setLevel\<close>:
  \<open>basic_format\<close> finds the format string, \<open>_styles\<close> the table of styles.
\<close>

lemma stdlib_logger_basic_format:
  "InteractionLogger_init (stdlib_env vars) (PStr path) (PStr ''basic_format'') =
     Some (Raise ValueError
       (''Unknown level: '' @ repr_stub (PStr ''%(levelname)s:%(name)s:%(message)s'')))"
  by (simp add: InteractionLogger_init_def stdlib_env_def ascii_upper_def
      stdlib_logging_attr_def check_level_def level_names_def log_ok_def)

lemma stdlib_logger_styles:
  "InteractionLogger_init (stdlib_env vars) (PStr path) (PStr ''_styles'') =
     Some (Raise TypeError
       (''Level not an integer or a valid string: '' @ repr_stub (PObj ''dict'')))"
  by (simp add: InteractionLogger_init_def stdlib_env_def ascii_upper_def
      stdlib_logging_attr_def check_level_def log_ok_def)

lemma stdlib_env_sel:
  "getenv (stdlib_env vars) = vars" "gemini_sdk (stdlib_env vars) = sdk_ok"
  "openai_sdk (stdlib_env vars) = sdk_ok"
  by (simp_all add: stdlib_env_def)

lemma Config_get_gemini_env:
  "Config_get (load_from_env gemini_environ) ''log_path'' (PStr ''logs/interactions.log'') = PStr ''logs/interactions.log''"
  "Config_get (load_from_env gemini_environ) ''log_level'' (PStr ''INFO'') = PStr ''INFO''"
  "Config_get (load_from_env gemini_environ) ''default_provider'' (PStr ''gemini'') = PStr ''gemini''"
  "Config_get (load_from_env gemini_environ) ''gemini'' (PDict []) =
      PDict [(''api_key'', PStr ''k1''), (''model'', PStr ''gemini-pro'')]"
  "Config_get (load_from_env gemini_environ) ''openai'' (PDict []) =
      PDict [(''api_key'', PNone), (''model'', PStr ''gpt-3.5-turbo'')]"
  by (simp_all add: Config_get_def load_from_env_def gemini_environ_def os_getenv_def
      os_getenv_default_def dict_get_def)

lemma initialize_providers_gemini_env:
  "fst (initialize_providers gemini_env (load_from_env gemini_environ)) = [(''gemini'', gemini_provider)]"
  by (simp add: initialize_providers_def initialize_gemini_def initialize_openai_def
      get_provider_config_def Config_get_gemini_env dict_get_def dict_get_default_def
      GeminiProvider_init_def validate_config_def new_AIProviderConfig_def
      Gemini_initialize_client_def gemini_env_def stdlib_env_sel sdk_ok_def
      gemini_provider_def
      split: prod.splits)

lemma gemini_processor_constructed:
  "processor_after gemini_env None [] = Some gemini_processor"
proof -
  obtain r evs where ip: "initialize_providers gemini_env (load_from_env gemini_environ) = (r, evs)"
    by (cases "initialize_providers gemini_env (load_from_env gemini_environ)")
  with initialize_providers_gemini_env have r: "r = [(''gemini'', gemini_provider)]" by simp
  have g: "getenv gemini_env = gemini_environ"
    by (simp add: gemini_env_def stdlib_env_sel)
  have lg: "InteractionLogger_init gemini_env (PStr ''logs/interactions.log'') (PStr ''INFO'')
      = None"
    by (simp add: gemini_env_def stdlib_logger_ok)
  have d: "init_default_provider gemini_env (load_from_env gemini_environ) [(''gemini'', gemini_provider)]
      = Inr (Some gemini_provider, [])"
    by (simp add: init_default_provider_def Config_get_gemini_env registry_get_def)
  show ?thesis
    by (simp add: processor_after_def RequestProcessor_init_def g Config_get_gemini_env
        lg ip r d gemini_processor_def)
qed

lemma Config_get_bare_env:
  "Config_get (load_from_env no_environ) ''log_path'' (PStr ''logs/interactions.log'') = PStr ''logs/interactions.log''"
  "Config_get (load_from_env no_environ) ''log_level'' (PStr ''INFO'') = PStr ''INFO''"
  "Config_get (load_from_env no_environ) ''default_provider'' (PStr ''gemini'') = PStr ''gemini''"
  "Config_get (load_from_env no_environ) ''gemini'' (PDict []) =
      PDict [(''api_key'', PNone), (''model'', PStr ''gemini-pro'')]"
  "Config_get (load_from_env no_environ) ''openai'' (PDict []) =
      PDict [(''api_key'', PNone), (''model'', PStr ''gpt-3.5-turbo'')]"
  by (simp_all add: Config_get_def load_from_env_def no_environ_def os_getenv_def
      os_getenv_default_def dict_get_def)

lemma initialize_providers_bare_env:
  "initialize_providers bare_env (load_from_env no_environ) = ([], [])"
  by (simp add: initialize_providers_def initialize_gemini_def initialize_openai_def
      get_provider_config_def Config_get_bare_env dict_get_def)

lemma bare_logger_ok:
  "InteractionLogger_init bare_env (PStr ''logs/interactions.log'') (PStr ''INFO'') = None"
  by (simp add: bare_env_def stdlib_logger_ok)

lemma bare_processor_constructed:
  "processor_after bare_env None [] = Some bare_processor"
proof -
  have g: "getenv bare_env = no_environ"
    by (simp add: bare_env_def stdlib_env_sel)
  have d: "\<exists>evs. init_default_provider bare_env (load_from_env no_environ) [] = Inr (None, evs)"
    by (simp add: init_default_provider_def Config_get_bare_env registry_get_def
        first_provider_def log_error_def json_dumps_error_def)
  then obtain evs where "init_default_provider bare_env (load_from_env no_environ) [] = Inr (None, evs)" ..
  then show ?thesis
    by (simp add: processor_after_def RequestProcessor_init_def g Config_get_bare_env
        bare_logger_ok initialize_providers_bare_env bare_processor_def)
qed

text \<open>
  On the processor with the Gemini provider: the name \<open>gemini\<close>, the name
  \<open>nonexistent\<close> and no name.
\<close>

theorem select_provider_routing_witness:
  "processor_after gemini_env None [] = Some gemini_processor \<and>
   truthy (PStr ''hi'') \<and> is_str (PStr ''hi'') \<and>
   map_of (providers gemini_processor) ''gemini'' = Some gemini_provider \<and>
   used_provider (Some gemini_provider)
     (process_request answers gemini_processor (PStr ''hi'') None None (Some ''gemini'')) \<and>
   get_provider_name gemini_provider = ''gemini'' \<and>
   map_of (providers gemini_processor) ''nonexistent'' = None \<and>
   used_provider (default_provider gemini_processor)
     (process_request answers gemini_processor (PStr ''hi'') None None (Some ''nonexistent'')) \<and>
   warnings (snd (process_request answers gemini_processor (PStr ''hi'') None None
                    (Some ''nonexistent''))) =
     [''Requested provider '' @ quoted ''nonexistent'' @ '' not available. '' @
      ''Falling back to default.''] \<and>
   used_provider (default_provider gemini_processor)
     (process_request answers gemini_processor (PStr ''hi'') None None None) \<and>
   warnings (snd (process_request answers gemini_processor (PStr ''hi'') None None None)) = []"
proof -
  note c = gemini_processor_constructed
  have t: "truthy (PStr ''hi'')" "is_str (PStr ''hi'')" by simp_all
  have m1: "map_of (providers gemini_processor) ''gemini'' = Some gemini_provider"
    by (simp add: gemini_processor_def)
  have m2: "map_of (providers gemini_processor) ''nonexistent'' = None"
    by (simp add: gemini_processor_def)
  have ne: "''nonexistent'' \<noteq> []" by simp
  from select_provider_routing[OF c t, of "Some ''gemini''" "''gemini''" gemini_provider answers None None] m1
  have a: "used_provider (Some gemini_provider)
     (process_request answers gemini_processor (PStr ''hi'') None None (Some ''gemini'')) \<and>
     get_provider_name gemini_provider = ''gemini''"
    by blast
  from select_provider_routing[OF c t, of "Some ''nonexistent''" "''nonexistent''" gemini_provider answers None None] m2 ne
  have b: "used_provider (default_provider gemini_processor)
     (process_request answers gemini_processor (PStr ''hi'') None None (Some ''nonexistent'')) \<and>
   warnings (snd (process_request answers gemini_processor (PStr ''hi'') None None
                    (Some ''nonexistent''))) =
     [''Requested provider '' @ quoted ''nonexistent'' @ '' not available. '' @
      ''Falling back to default.'']"
    by blast
  from select_provider_routing[OF c t, of None "''gemini''" gemini_provider answers None None]
  have d: "used_provider (default_provider gemini_processor)
     (process_request answers gemini_processor (PStr ''hi'') None None None) \<and>
   warnings (snd (process_request answers gemini_processor (PStr ''hi'') None None None)) = []"
    by blast
  from c t m1 m2 a b d show ?thesis by blast
qed

text \<open>
  Claim C1 as stated fails for the empty name: it is given, it is no key of the
  registry, the default provider is used, and no warning is logged.
\<close>

theorem empty_provider_name_counterexample:
  "processor_after gemini_env None [] = Some gemini_processor \<and>
   map_of (providers gemini_processor) [] = None \<and>
   warnings (snd (process_request answers gemini_processor (PStr ''hi'') None None (Some [])))
     = []"
proof -
  have s: "select_provider gemini_processor (Some []) = (default_provider gemini_processor, [])"
    by (simp add: select_provider_def)
  have t: "truthy (PStr ''hi'')" "is_str (PStr ''hi'')" by simp_all
  from used_provider_select[OF t s, of answers None None]
  have "warnings (snd (process_request answers gemini_processor (PStr ''hi'') None None (Some [])))
     = []" by simp
  moreover have "map_of (providers gemini_processor) [] = None"
    by (simp add: gemini_processor_def)
  ultimately show ?thesis using gemini_processor_constructed by blast
qed

text \<open>
  The validation at the head of \<open>process_request\<close>, and the envelope of a call whose
  provider was selected.
\<close>

lemma process_request_rejects:
  "\<not> truthy request \<or> \<not> is_str request \<Longrightarrow>
     process_request gen self request c h pn =
       (Inl (Raise ValidationException ''Request must be a non-empty string''), [])"
  by (auto simp: process_request_def)

lemma process_request_selected:
  assumes "truthy request" "is_str request" "select_provider self pn = (Some p, evs)"
  shows "fst (process_request gen self request c h pn) =
     (case gen p request c h of
        Inl e \<Rightarrow>
          Inr [(''success'', PBool False),
               (''error'', PStr (if exc_class_of e = ProviderException then exc_str e
                                else ''Unexpected error: '' @ exc_str e)),
               (''provider'', PStr (get_provider_name p)),
               (''request'', request)]
      | Inr response \<Rightarrow>
          (case json_unencodable (context_value c) of
             None \<Rightarrow>
               Inr [(''success'', PBool True), (''response'', PStr response),
                    (''provider'', PStr (get_provider_name p)), (''request'', request)]
           | Some t \<Rightarrow>
               Inr [(''success'', PBool False),
                    (''error'', PStr (''Unexpected error: '' @ ''Object of type '' @ t @
                                     '' is not JSON serializable'')),
                    (''provider'', PStr (get_provider_name p)),
                    (''request'', request)]))"
proof (cases "gen p request c h")
  case (Inl e)
  with assms show ?thesis
    by (simp add: process_request_def handle_exception_eq)
next
  case (Inr response)
  have enc: "json_unencodable request = None" using assms(2) by (rule is_str_encodable)
  show ?thesis
  proof (cases "json_unencodable (context_value c)")
    case None
    then have "log_interaction request response (get_provider_name p)
        [(''context'', context_value c), (''has_history'', PBool (bool_history h))] =
        Inr (LogInteraction request response (get_provider_name p)
        [(''context'', context_value c), (''has_history'', PBool (bool_history h))])"
      by (simp add: log_interaction_def json_dumps_error_def enc)
    with assms Inr None show ?thesis by (simp add: process_request_def)
  next
    case (Some t)
    then have "log_interaction request response (get_provider_name p)
        [(''context'', context_value c), (''has_history'', PBool (bool_history h))] =
        Inl (Raise TypeError (''Object of type '' @ t @ '' is not JSON serializable''))"
      by (simp add: log_interaction_def json_dumps_error_def enc)
    with assms Inr Some show ?thesis
      by (simp add: process_request_def handle_exception_eq)
  qed
qed

text \<open>
  Claim C2, as the code has it.  For a non-empty string request, \<open>process_request\<close>
  returns an envelope with \<open>success\<close> set, whatever the context, the history and the
  provider name.  When the selected provider raises a \<open>ProviderException\<close> the envelope
  carries its message; when it raises another exception the message is prefixed with
  \<open>Unexpected error: \<close>; when it returns text and the context can be encoded as JSON
  for the interaction record, the envelope is the success envelope with that text.
\<close>

theorem process_request_envelopes:
  assumes "truthy request" and "is_str request"
  shows
    "(\<exists>env b. fst (process_request gen self request c h pn) = Inr env \<and>
              map_of env ''success'' = Some (PBool b)) \<and>
     (fst (select_provider self pn) = Some p \<and> gen p request c h = Inl e \<and>
      exc_class_of e = ProviderException \<longrightarrow>
        fst (process_request gen self request c h pn) =
          Inr [(''success'', PBool False), (''error'', PStr (exc_str e)),
               (''provider'', PStr (get_provider_name p)), (''request'', request)]) \<and>
     (fst (select_provider self pn) = Some p \<and> gen p request c h = Inl e \<and>
      exc_class_of e \<noteq> ProviderException \<longrightarrow>
        fst (process_request gen self request c h pn) =
          Inr [(''success'', PBool False),
               (''error'', PStr (''Unexpected error: '' @ exc_str e)),
               (''provider'', PStr (get_provider_name p)), (''request'', request)]) \<and>
     (fst (select_provider self pn) = Some p \<and> gen p request c h = Inr text \<and>
      json_unencodable (context_value c) = None \<longrightarrow>
        fst (process_request gen self request c h pn) =
          Inr [(''success'', PBool True), (''response'', PStr text),
               (''provider'', PStr (get_provider_name p)), (''request'', request)])"
proof -
  obtain q evs where s: "select_provider self pn = (q, evs)"
    by (cases "select_provider self pn")
  have sel: "fst (process_request gen self request c h pn) =
     (case gen p request c h of
        Inl e \<Rightarrow>
          Inr [(''success'', PBool False),
               (''error'', PStr (if exc_class_of e = ProviderException then exc_str e
                                else ''Unexpected error: '' @ exc_str e)),
               (''provider'', PStr (get_provider_name p)),
               (''request'', request)]
      | Inr response \<Rightarrow>
          (case json_unencodable (context_value c) of
             None \<Rightarrow>
               Inr [(''success'', PBool True), (''response'', PStr response),
                    (''provider'', PStr (get_provider_name p)), (''request'', request)]
           | Some t \<Rightarrow>
               Inr [(''success'', PBool False),
                    (''error'', PStr (''Unexpected error: '' @ ''Object of type '' @ t @
                                     '' is not JSON serializable'')),
                    (''provider'', PStr (get_provider_name p)),
                    (''request'', request)]))"
    if "fst (select_provider self pn) = Some p" for p
    using that s process_request_selected[OF assms, of self pn p evs gen c h] by simp
  have first: "\<exists>env b. fst (process_request gen self request c h pn) = Inr env \<and>
              map_of env ''success'' = Some (PBool b)"
  proof (cases q)
    case None
    with s process_request_without[OF assms, of self pn evs gen c h] show ?thesis by auto
  next
    case (Some p')
    with s have "fst (select_provider self pn) = Some p'" by simp
    from sel[OF this] show ?thesis
      by (cases "gen p' request c h"; cases "json_unencodable (context_value c)") auto
  qed
  have second: "fst (process_request gen self request c h pn) =
          Inr [(''success'', PBool False), (''error'', PStr (exc_str e)),
               (''provider'', PStr (get_provider_name p)), (''request'', request)]"
    if "fst (select_provider self pn) = Some p \<and> gen p request c h = Inl e \<and>
      exc_class_of e = ProviderException"
    using that sel[of p] by simp
  have third: "fst (process_request gen self request c h pn) =
          Inr [(''success'', PBool False),
               (''error'', PStr (''Unexpected error: '' @ exc_str e)),
               (''provider'', PStr (get_provider_name p)), (''request'', request)]"
    if "fst (select_provider self pn) = Some p \<and> gen p request c h = Inl e \<and>
      exc_class_of e \<noteq> ProviderException"
    using that sel[of p] by simp
  have fourth: "fst (process_request gen self request c h pn) =
          Inr [(''success'', PBool True), (''response'', PStr text),
               (''provider'', PStr (get_provider_name p)), (''request'', request)]"
    if "fst (select_provider self pn) = Some p \<and> gen p request c h = Inr text \<and>
      json_unencodable (context_value c) = None"
    using that sel[of p] by simp
  from first second third fourth show ?thesis by blast
qed

lemma select_gemini_default:
  "select_provider gemini_processor None = (Some gemini_provider, [])"
  by (simp add: select_provider_def gemini_processor_def)

lemma gemini_provider_name: "get_provider_name gemini_provider = ''gemini''"
  by (simp add: get_provider_name_def gemini_provider_def)

text \<open>
  Claim C2 as stated, for any context, fails: with a context value the JSON encoder does
  not know, \<open>log_interaction\<close> raises inside the \<open>try\<close> after the provider returned its
  text, and the caller gets a failure envelope.
\<close>

theorem unencodable_context_counterexample:
  "answers gemini_provider (PStr ''hi'') (Some [(''balance'', PObj ''Decimal'')]) None
     = Inr ''ok'' \<and>
   fst (process_request answers gemini_processor (PStr ''hi'')
          (Some [(''balance'', PObj ''Decimal'')]) None None) =
     Inr [(''success'', PBool False),
          (''error'', PStr ''Unexpected error: Object of type Decimal is not JSON serializable''),
          (''provider'', PStr ''gemini''),
          (''request'', PStr ''hi'')]"
proof -
  have t: "truthy (PStr ''hi'')" "is_str (PStr ''hi'')" by simp_all
  have a: "answers gemini_provider (PStr ''hi'') (Some [(''balance'', PObj ''Decimal'')]) None
     = Inr ''ok''" by (simp add: answers_def)
  from process_request_selected[OF t select_gemini_default,
      of answers "Some [(''balance'', PObj ''Decimal'')]" None]
  show ?thesis
    by (simp add: a context_value_def gemini_provider_name)
qed

text \<open>
  On the processor with the Gemini provider: a provider that raises
  \<open>ProviderException\<close>, one that raises \<open>ValueError\<close>, and one that answers with an
  encodable context.
\<close>

theorem process_request_envelopes_witness:
  "truthy (PStr ''hi'') \<and> is_str (PStr ''hi'') \<and>
   fst (select_provider gemini_processor None) = Some gemini_provider \<and>
   exc_class_of (Raise ProviderException ''boom'') = ProviderException \<and>
   fst (process_request (fails_with (Raise ProviderException ''boom'')) gemini_processor
          (PStr ''hi'') None None None) =
     Inr [(''success'', PBool False), (''error'', PStr ''boom''),
          (''provider'', PStr ''gemini''), (''request'', PStr ''hi'')] \<and>
   exc_class_of (Raise ValueError ''bad'') \<noteq> ProviderException \<and>
   fst (process_request (fails_with (Raise ValueError ''bad'')) gemini_processor
          (PStr ''hi'') None None None) =
     Inr [(''success'', PBool False), (''error'', PStr ''Unexpected error: bad''),
          (''provider'', PStr ''gemini''), (''request'', PStr ''hi'')] \<and>
   json_unencodable (context_value (Some [(''user_type'', PStr ''investor'')])) = None \<and>
   fst (process_request answers gemini_processor (PStr ''hi'')
          (Some [(''user_type'', PStr ''investor'')]) None None) =
     Inr [(''success'', PBool True), (''response'', PStr ''ok''),
          (''provider'', PStr ''gemini''), (''request'', PStr ''hi'')]"
proof -
  have t: "truthy (PStr ''hi'')" "is_str (PStr ''hi'')" by simp_all
  have s: "fst (select_provider gemini_processor None) = Some gemini_provider"
    by (simp add: select_gemini_default)
  have c1: "exc_class_of (Raise ProviderException ''boom'') = ProviderException" by simp
  have c2: "exc_class_of (Raise ValueError ''bad'') \<noteq> ProviderException" by simp
  have c3: "json_unencodable (context_value (Some [(''user_type'', PStr ''investor'')])) = None"
    by (simp add: context_value_def)
  have g1: "fails_with (Raise ProviderException ''boom'') gemini_provider (PStr ''hi'') None None
      = Inl (Raise ProviderException ''boom'')" by (simp add: fails_with_def)
  have g2: "fails_with (Raise ValueError ''bad'') gemini_provider (PStr ''hi'') None None
      = Inl (Raise ValueError ''bad'')" by (simp add: fails_with_def)
  have g3: "answers gemini_provider (PStr ''hi'') (Some [(''user_type'', PStr ''investor'')]) None
      = Inr ''ok''" by (simp add: answers_def)
  from process_request_envelopes[OF t, of "fails_with (Raise ProviderException ''boom'')"
      gemini_processor None None None gemini_provider "Raise ProviderException ''boom''"] s c1 g1
  have r1: "fst (process_request (fails_with (Raise ProviderException ''boom'')) gemini_processor
          (PStr ''hi'') None None None) =
     Inr [(''success'', PBool False), (''error'', PStr ''boom''),
          (''provider'', PStr ''gemini''), (''request'', PStr ''hi'')]"
    by (simp add: gemini_provider_name)
  from process_request_envelopes[OF t, of "fails_with (Raise ValueError ''bad'')"
      gemini_processor None None None gemini_provider "Raise ValueError ''bad''"] s c2 g2
  have r2: "fst (process_request (fails_with (Raise ValueError ''bad'')) gemini_processor
          (PStr ''hi'') None None None) =
     Inr [(''success'', PBool False), (''error'', PStr ''Unexpected error: bad''),
          (''provider'', PStr ''gemini''), (''request'', PStr ''hi'')]"
    by (simp add: gemini_provider_name)
  from process_request_envelopes[OF t, of answers gemini_processor
      "Some [(''user_type'', PStr ''investor'')]" None None gemini_provider _ "''ok''"] s c3 g3
  have r3: "fst (process_request answers gemini_processor (PStr ''hi'')
          (Some [(''user_type'', PStr ''investor'')]) None None) =
     Inr [(''success'', PBool True), (''response'', PStr ''ok''),
          (''provider'', PStr ''gemini''), (''request'', PStr ''hi'')]"
    by (simp add: gemini_provider_name)
  from t s c1 c2 c3 r1 r2 r3 show ?thesis by blast
qed

text \<open>
  Claim C3 at a whitespace-only request.  The check \<open>not request\<close> is false for
  \<open>"   "\<close>, so no \<open>ValidationException\<close> is raised: the default provider is invoked
  and a success envelope comes back.  (For an empty or non-string request the exception
  is raised with no event at all: \<open>process_request_rejects\<close>.)
\<close>

theorem whitespace_request_processed:
  "truthy (PStr ''   '') \<and> is_str (PStr ''   '') \<and>
   fst (process_request answers gemini_processor (PStr ''   '') None None None) =
     Inr [(''success'', PBool True), (''response'', PStr ''ok''),
          (''provider'', PStr ''gemini''), (''request'', PStr ''   '')] \<and>
   invoked (snd (process_request answers gemini_processor (PStr ''   '') None None None)) =
     [gemini_provider]"
proof -
  have t: "truthy (PStr ''   '')" "is_str (PStr ''   '')" by simp_all
  have g: "answers gemini_provider (PStr ''   '') None None = Inr ''ok''"
    by (simp add: answers_def)
  from process_request_selected[OF t select_gemini_default, of answers None None]
  have r: "fst (process_request answers gemini_processor (PStr ''   '') None None None) =
     Inr [(''success'', PBool True), (''response'', PStr ''ok''),
          (''provider'', PStr ''gemini''), (''request'', PStr ''   '')]"
    by (simp add: g context_value_def gemini_provider_name)
  from used_provider_select[OF t select_gemini_default, of answers None None]
  have "invoked (snd (process_request answers gemini_processor (PStr ''   '') None None None)) =
     [gemini_provider]"
    by (simp add: used_provider_def)
  with t r show ?thesis by blast
qed

text \<open>
  Read off that evaluation: the envelope for the whitespace-only request says success,
  and one provider call was made.
\<close>

theorem whitespace_request_processed_witness:
  "map_of (projr (fst (process_request answers gemini_processor (PStr ''   '') None None None)))
     ''success'' = Some (PBool True) \<and>
   length (invoked (snd (process_request answers gemini_processor (PStr ''   '') None None None)))
     = 1"
  using whitespace_request_processed by simp

text \<open>
  Claim C4.  On a constructed processor whose registry is empty, every valid request, with
  any provider name, returns the failure envelope whose error is
  \<open>No AI provider available\<close>; nothing is raised and no provider is invoked.
\<close>

theorem no_provider_envelope:
  assumes "processor_after env config_arg names = Some self"
    and "providers self = []"
    and "truthy request" and "is_str request"
  shows "fst (process_request gen self request c h provider_name) =
           Inr [(''success'', PBool False),
                (''error'', PStr ''No AI provider available''),
                (''request'', request)] \<and>
         invoked (snd (process_request gen self request c h provider_name)) = []"
proof -
  from processor_after_inv[OF assms(1)] assms(2) have d: "default_provider self = None"
    by (auto simp: registry_inv_def split: option.splits)
  obtain q evs where s: "select_provider self provider_name = (q, evs)"
    by (cases "select_provider self provider_name")
  with d assms(2) have q: "q = None"
    by (auto simp: select_provider_def split: option.splits if_splits)
  from s q have s': "select_provider self provider_name = (None, evs)" by simp
  from select_provider_events[OF s'] show ?thesis
    by (simp add: process_request_without[OF assms(3,4) s'] invoked_append)
qed

text \<open>On the processor constructed with no API key at all, asked for \<open>gemini\<close>.\<close>

theorem no_provider_envelope_witness:
  "processor_after bare_env None [] = Some bare_processor \<and>
   providers bare_processor = [] \<and> truthy (PStr ''hi'') \<and> is_str (PStr ''hi'') \<and>
   fst (process_request answers bare_processor (PStr ''hi'') None None (Some ''gemini'')) =
     Inr [(''success'', PBool False),
          (''error'', PStr ''No AI provider available''),
          (''request'', PStr ''hi'')] \<and>
   invoked (snd (process_request answers bare_processor (PStr ''hi'') None None (Some ''gemini'')))
     = []"
proof -
  have p: "providers bare_processor = []" by (simp add: bare_processor_def)
  have t: "truthy (PStr ''hi'')" "is_str (PStr ''hi'')" by simp_all
  from no_provider_envelope[OF bare_processor_constructed p t, of answers None None "Some ''gemini''"]
    bare_processor_constructed p t
  show ?thesis by blast
qed

text \<open>
  The lookup of the configured default in the registry finds a provider exactly when the
  configured value is a string that is a key, and then it is the provider under that
  key.
\<close>

lemma registry_get_Some_iff:
  "registry_get r name = Some p \<longleftrightarrow> (\<exists>n. name = PStr n \<and> map_of r n = Some p)"
  by (cases name) (simp_all add: registry_get_def)

lemma registry_get_None_iff:
  "registry_get r name = None \<longleftrightarrow> name \<notin> set (map (\<lambda>kp. PStr (fst kp)) r)"
proof (cases name)
  case (PStr n)
  have "map_of r n = None \<longleftrightarrow> n \<notin> fst ` set r" by (rule map_of_eq_None_iff)
  with PStr show ?thesis by (auto simp: registry_get_def)
qed (auto simp: registry_get_def)

text \<open>
  Three constructions with the client libraries installed: both API keys and \<open>gpt\<close>
  configured as the default; the Gemini key alone and \<open>gpt\<close> configured as the default;
  and the registries they populate.
\<close>

lemma Config_get_both_env:
  "Config_get (load_from_env both_environ) ''log_path'' (PStr ''logs/interactions.log'') = PStr ''logs/interactions.log''"
  "Config_get (load_from_env both_environ) ''log_level'' (PStr ''INFO'') = PStr ''INFO''"
  "Config_get (load_from_env both_environ) ''default_provider'' (PStr ''gemini'') = PStr ''gpt''"
  "Config_get (load_from_env both_environ) ''gemini'' (PDict []) =
      PDict [(''api_key'', PStr ''k1''), (''model'', PStr ''gemini-pro'')]"
  "Config_get (load_from_env both_environ) ''openai'' (PDict []) =
      PDict [(''api_key'', PStr ''k2''), (''model'', PStr ''gpt-3.5-turbo'')]"
  by (simp_all add: Config_get_def load_from_env_def both_environ_def os_getenv_def
      os_getenv_default_def dict_get_def)

lemma initialize_providers_both_env:
  "fst (initialize_providers (stdlib_env both_environ) (load_from_env both_environ)) =
     [(''gemini'', gemini_provider), (''gpt'', gpt_provider)]"
  by (simp add: initialize_providers_def initialize_gemini_def initialize_openai_def
      get_provider_config_def Config_get_both_env dict_get_def dict_get_default_def
      GeminiProvider_init_def GPTProvider_init_def validate_config_def
      new_AIProviderConfig_def Gemini_initialize_client_def GPT_initialize_client_def
      stdlib_env_sel sdk_ok_def gemini_provider_def gpt_provider_def
      split: prod.splits)

lemma Config_get_gpt_default_env:
  "Config_get (load_from_env gpt_default_environ) ''log_path'' (PStr ''logs/interactions.log'') = PStr ''logs/interactions.log''"
  "Config_get (load_from_env gpt_default_environ) ''log_level'' (PStr ''INFO'') = PStr ''INFO''"
  "Config_get (load_from_env gpt_default_environ) ''default_provider'' (PStr ''gemini'') = PStr ''gpt''"
  "Config_get (load_from_env gpt_default_environ) ''gemini'' (PDict []) =
      PDict [(''api_key'', PStr ''k1''), (''model'', PStr ''gemini-pro'')]"
  "Config_get (load_from_env gpt_default_environ) ''openai'' (PDict []) =
      PDict [(''api_key'', PNone), (''model'', PStr ''gpt-3.5-turbo'')]"
  by (simp_all add: Config_get_def load_from_env_def gpt_default_environ_def os_getenv_def
      os_getenv_default_def dict_get_def)

lemma initialize_providers_gpt_default_env:
  "fst (initialize_providers (stdlib_env gpt_default_environ)
          (load_from_env gpt_default_environ)) = [(''gemini'', gemini_provider)]"
  by (simp add: initialize_providers_def initialize_gemini_def initialize_openai_def
      get_provider_config_def Config_get_gpt_default_env dict_get_def dict_get_default_def
      GeminiProvider_init_def validate_config_def new_AIProviderConfig_def
      Gemini_initialize_client_def stdlib_env_sel sdk_ok_def gemini_provider_def
      split: prod.splits)

text \<open>
  Claim C5.  Once the logging sink is set up, and for a configured default name that can
  be looked up (it is hashable, as every string is), construction returns a processor
  whose registry is the one just populated and whose default provider is: the provider
  registered under the configured name, if that name is a key of the registry; otherwise
  the first-inserted provider of the registry; otherwise, the registry being empty, none,
  and then construction still returns, its last event being the logged error.
\<close>

theorem default_provider_at_construction:
  assumes "cfg = (case config_arg of Some c \<Rightarrow> c | None \<Rightarrow> load_from_env (getenv env))"
    and "InteractionLogger_init env
           (Config_get cfg ''log_path'' (PStr ''logs/interactions.log''))
           (Config_get cfg ''log_level'' (PStr ''INFO'')) = None"
    and "name = Config_get cfg ''default_provider'' (PStr ''gemini'')"
    and "hashable name"
  shows "\<exists>self evs.
           RequestProcessor_init env config_arg = (Inr self, evs) \<and>
           providers self = fst (initialize_providers env cfg) \<and>
           (name = PStr n \<and> map_of (providers self) n = Some p \<longrightarrow>
              default_provider self = Some p) \<and>
           (name \<notin> set (map (\<lambda>kp. PStr (fst kp)) (providers self)) \<and>
            providers self = kp # rest \<longrightarrow>
              default_provider self = Some (snd kp)) \<and>
           (providers self = [] \<longrightarrow>
              default_provider self = None \<and>
              evs \<noteq> [] \<and>
              last evs = LogError ''No AI providers available'' ''initialization_error''
                           [(''configured_providers'', PList [])])"
proof -
  obtain r evs0 where ip: "initialize_providers env cfg = (r, evs0)"
    by (cases "initialize_providers env cfg")
  let ?w = "LogWarning (''Default provider '' @ quoted (format_value (builtin_str env) name) @
                       '' not available. '' @ ''Using first available provider.'')"
  let ?e = "LogError ''No AI providers available'' ''initialization_error''
                           [(''configured_providers'', PList [])]"
  have le: "log_error ''No AI providers available'' ''initialization_error''
                     [(''configured_providers'', PList [])] = Inr ?e"
    by (rule log_error_ok) simp
  have d: "\<exists>d evs'. init_default_provider env cfg r = Inr (d, evs') \<and>
      (name = PStr n \<and> map_of r n = Some p \<longrightarrow> d = Some p) \<and>
      (name \<notin> set (map (\<lambda>kp. PStr (fst kp)) r) \<and> r = kp # rest \<longrightarrow> d = Some (snd kp)) \<and>
      (r = [] \<longrightarrow> d = None \<and> evs' = [?w, ?e])"
  proof (cases "registry_get r name")
    case (Some p')
    then obtain n' where n': "name = PStr n'" "map_of r n' = Some p'"
      by (auto simp: registry_get_Some_iff)
    from Some have in_reg: "name \<in> set (map (\<lambda>kp. PStr (fst kp)) r)"
      using registry_get_None_iff[of r name] by auto
    then have ne: "r \<noteq> []" by auto
    from Some assms(3,4) have "init_default_provider env cfg r = Inr (Some p', [])"
      by (simp add: init_default_provider_def)
    with n' in_reg ne show ?thesis by auto
  next
    case None
    then have out: "name \<notin> set (map (\<lambda>kp. PStr (fst kp)) r)"
      by (simp add: registry_get_None_iff)
    from None have no: "\<not> (name = PStr n \<and> map_of r n = Some p)"
      using registry_get_Some_iff[of r name p] by auto
    show ?thesis
    proof (cases r)
      case Nil
      with None assms(3,4) le have "init_default_provider env cfg r = Inr (None, [?w, ?e])"
        by (simp add: init_default_provider_def first_provider_def)
      with Nil no show ?thesis by simp
    next
      case (Cons kp' rest')
      with None assms(3,4) have di: "init_default_provider env cfg r = Inr (Some (snd kp'), [?w])"
        by (simp add: init_default_provider_def first_provider_def)
      from Cons have eq: "r = kp # rest \<longrightarrow> Some (snd kp') = Some (snd kp)" by simp
      from Cons have ne: "r \<noteq> []" by simp
      from di no eq ne show ?thesis by blast
    qed
  qed
  then obtain d evs' where
    di: "init_default_provider env cfg r = Inr (d, evs')" and
    d1: "name = PStr n \<and> map_of r n = Some p \<longrightarrow> d = Some p" and
    d2: "name \<notin> set (map (\<lambda>kp. PStr (fst kp)) r) \<and> r = kp # rest \<longrightarrow> d = Some (snd kp)" and
    d3: "r = [] \<longrightarrow> d = None \<and> evs' = [?w, ?e]"
    by blast
  have init: "RequestProcessor_init env config_arg =
      (Inr \<lparr>config = cfg, providers = r, default_provider = d\<rparr>, evs0 @ evs')"
    using assms(2) ip di
    by (simp add: RequestProcessor_init_def Let_def assms(1)[symmetric])
  show ?thesis
    apply (rule exI[of _ "\<lparr>config = cfg, providers = r, default_provider = d\<rparr>"])
    apply (rule exI[of _ "evs0 @ evs'"])
    using init ip d1 d2 d3 by auto
qed

text \<open>
  With both keys and \<open>gpt\<close> configured, the default is the GPT provider although the
  Gemini one was inserted first; with the Gemini key alone and \<open>gpt\<close> configured, the
  name is no key and the default is the first-inserted Gemini provider; with no key the
  construction returns a processor with no default and logs the error.
\<close>

theorem default_provider_at_construction_witness:
  "(InteractionLogger_init (stdlib_env both_environ)
      (Config_get (load_from_env both_environ) ''log_path'' (PStr ''logs/interactions.log''))
      (Config_get (load_from_env both_environ) ''log_level'' (PStr ''INFO'')) = None \<and>
    hashable (Config_get (load_from_env both_environ) ''default_provider'' (PStr ''gemini'')) \<and>
    Config_get (load_from_env both_environ) ''default_provider'' (PStr ''gemini'') = PStr ''gpt'' \<and>
    providers (projr (fst (RequestProcessor_init (stdlib_env both_environ) None))) =
      [(''gemini'', gemini_provider), (''gpt'', gpt_provider)] \<and>
    default_provider (projr (fst (RequestProcessor_init (stdlib_env both_environ) None))) =
      Some gpt_provider) \<and>
   (InteractionLogger_init (stdlib_env gpt_default_environ)
      (Config_get (load_from_env gpt_default_environ) ''log_path'' (PStr ''logs/interactions.log''))
      (Config_get (load_from_env gpt_default_environ) ''log_level'' (PStr ''INFO'')) = None \<and>
    hashable (Config_get (load_from_env gpt_default_environ) ''default_provider'' (PStr ''gemini'')) \<and>
    Config_get (load_from_env gpt_default_environ) ''default_provider'' (PStr ''gemini'') = PStr ''gpt'' \<and>
    providers (projr (fst (RequestProcessor_init (stdlib_env gpt_default_environ) None))) =
      [(''gemini'', gemini_provider)] \<and>
    default_provider (projr (fst (RequestProcessor_init (stdlib_env gpt_default_environ) None))) =
      Some gemini_provider) \<and>
   (InteractionLogger_init bare_env
      (Config_get (load_from_env (getenv bare_env)) ''log_path'' (PStr ''logs/interactions.log''))
      (Config_get (load_from_env (getenv bare_env)) ''log_level'' (PStr ''INFO'')) = None \<and>
    hashable (Config_get (load_from_env (getenv bare_env)) ''default_provider'' (PStr ''gemini'')) \<and>
    providers (projr (fst (RequestProcessor_init bare_env None))) = [] \<and>
    default_provider (projr (fst (RequestProcessor_init bare_env None))) = None \<and>
    last (snd (RequestProcessor_init bare_env None)) =
      LogError ''No AI providers available'' ''initialization_error''
        [(''configured_providers'', PList [])])"
proof -
  have both: "InteractionLogger_init (stdlib_env both_environ)
      (Config_get (load_from_env both_environ) ''log_path'' (PStr ''logs/interactions.log''))
      (Config_get (load_from_env both_environ) ''log_level'' (PStr ''INFO'')) = None \<and>
    hashable (Config_get (load_from_env both_environ) ''default_provider'' (PStr ''gemini'')) \<and>
    Config_get (load_from_env both_environ) ''default_provider'' (PStr ''gemini'') = PStr ''gpt'' \<and>
    providers (projr (fst (RequestProcessor_init (stdlib_env both_environ) None))) =
      [(''gemini'', gemini_provider), (''gpt'', gpt_provider)] \<and>
    default_provider (projr (fst (RequestProcessor_init (stdlib_env both_environ) None))) =
      Some gpt_provider"
  proof -
    let ?env = "stdlib_env both_environ"
    let ?cfg = "load_from_env both_environ"
    have l: "InteractionLogger_init ?env
        (Config_get ?cfg ''log_path'' (PStr ''logs/interactions.log''))
        (Config_get ?cfg ''log_level'' (PStr ''INFO'')) = None"
      by (simp add: Config_get_both_env stdlib_logger_ok)
    have nm: "Config_get ?cfg ''default_provider'' (PStr ''gemini'') = PStr ''gpt''"
      by (simp add: Config_get_both_env)
    have h: "hashable (Config_get ?cfg ''default_provider'' (PStr ''gemini''))"
      by (simp add: nm)
    have c: "?cfg = (case None of Some c \<Rightarrow> c | None \<Rightarrow> load_from_env (getenv ?env))"
      by (simp add: stdlib_env_sel)
    from default_provider_at_construction[OF c l refl h, of "''gpt''" gpt_provider
        "(''gemini'', gemini_provider)" "[]"]
    obtain self evs where
      i: "RequestProcessor_init ?env None = (Inr self, evs)" and
      p: "providers self = fst (initialize_providers ?env ?cfg)" and
      d: "Config_get ?cfg ''default_provider'' (PStr ''gemini'') = PStr ''gpt'' \<and>
          map_of (providers self) ''gpt'' = Some gpt_provider \<longrightarrow>
          default_provider self = Some gpt_provider"
      by blast
    from p have p': "providers self = [(''gemini'', gemini_provider), (''gpt'', gpt_provider)]"
      by (simp add: initialize_providers_both_env)
    then have "map_of (providers self) ''gpt'' = Some gpt_provider" by simp
    with d nm have "default_provider self = Some gpt_provider" by blast
    with i p' have "providers (projr (fst (RequestProcessor_init ?env None))) =
        [(''gemini'', gemini_provider), (''gpt'', gpt_provider)] \<and>
      default_provider (projr (fst (RequestProcessor_init ?env None))) = Some gpt_provider"
      by simp
    with l h nm show ?thesis by blast
  qed
  have fallback: "InteractionLogger_init (stdlib_env gpt_default_environ)
      (Config_get (load_from_env gpt_default_environ) ''log_path'' (PStr ''logs/interactions.log''))
      (Config_get (load_from_env gpt_default_environ) ''log_level'' (PStr ''INFO'')) = None \<and>
    hashable (Config_get (load_from_env gpt_default_environ) ''default_provider'' (PStr ''gemini'')) \<and>
    Config_get (load_from_env gpt_default_environ) ''default_provider'' (PStr ''gemini'') = PStr ''gpt'' \<and>
    providers (projr (fst (RequestProcessor_init (stdlib_env gpt_default_environ) None))) =
      [(''gemini'', gemini_provider)] \<and>
    default_provider (projr (fst (RequestProcessor_init (stdlib_env gpt_default_environ) None))) =
      Some gemini_provider"
  proof -
    let ?env = "stdlib_env gpt_default_environ"
    let ?cfg = "load_from_env gpt_default_environ"
    have l: "InteractionLogger_init ?env
        (Config_get ?cfg ''log_path'' (PStr ''logs/interactions.log''))
        (Config_get ?cfg ''log_level'' (PStr ''INFO'')) = None"
      by (simp add: Config_get_gpt_default_env stdlib_logger_ok)
    have nm: "Config_get ?cfg ''default_provider'' (PStr ''gemini'') = PStr ''gpt''"
      by (simp add: Config_get_gpt_default_env)
    have h: "hashable (Config_get ?cfg ''default_provider'' (PStr ''gemini''))"
      by (simp add: nm)
    have c: "?cfg = (case None of Some c \<Rightarrow> c | None \<Rightarrow> load_from_env (getenv ?env))"
      by (simp add: stdlib_env_sel)
    from default_provider_at_construction[OF c l refl h, of "''gpt''" gpt_provider
        "(''gemini'', gemini_provider)" "[]"]
    obtain self evs where
      i: "RequestProcessor_init ?env None = (Inr self, evs)" and
      p: "providers self = fst (initialize_providers ?env ?cfg)" and
      d: "Config_get ?cfg ''default_provider'' (PStr ''gemini'')
            \<notin> set (map (\<lambda>kp. PStr (fst kp)) (providers self)) \<and>
          providers self = [(''gemini'', gemini_provider)] \<longrightarrow>
          default_provider self = Some (snd (''gemini'', gemini_provider))"
      by blast
    from p have p': "providers self = [(''gemini'', gemini_provider)]"
      by (simp add: initialize_providers_gpt_default_env)
    then have "Config_get ?cfg ''default_provider'' (PStr ''gemini'')
        \<notin> set (map (\<lambda>kp. PStr (fst kp)) (providers self))"
      by (simp add: nm)
    with d p' have "default_provider self = Some gemini_provider" by simp
    with i p' have "providers (projr (fst (RequestProcessor_init ?env None))) =
        [(''gemini'', gemini_provider)] \<and>
      default_provider (projr (fst (RequestProcessor_init ?env None))) = Some gemini_provider"
      by simp
    with l h nm show ?thesis by blast
  qed
  have none: "InteractionLogger_init bare_env
      (Config_get (load_from_env (getenv bare_env)) ''log_path'' (PStr ''logs/interactions.log''))
      (Config_get (load_from_env (getenv bare_env)) ''log_level'' (PStr ''INFO'')) = None \<and>
    hashable (Config_get (load_from_env (getenv bare_env)) ''default_provider'' (PStr ''gemini'')) \<and>
    providers (projr (fst (RequestProcessor_init bare_env None))) = [] \<and>
    default_provider (projr (fst (RequestProcessor_init bare_env None))) = None \<and>
    last (snd (RequestProcessor_init bare_env None)) =
      LogError ''No AI providers available'' ''initialization_error''
        [(''configured_providers'', PList [])]"
  proof -
    have g: "getenv bare_env = no_environ"
      by (simp add: bare_env_def stdlib_env_sel)
    have l: "InteractionLogger_init bare_env
        (Config_get (load_from_env (getenv bare_env)) ''log_path'' (PStr ''logs/interactions.log''))
        (Config_get (load_from_env (getenv bare_env)) ''log_level'' (PStr ''INFO'')) = None"
      by (simp add: g Config_get_bare_env bare_logger_ok)
    have h: "hashable (Config_get (load_from_env (getenv bare_env)) ''default_provider'' (PStr ''gemini''))"
      by (simp add: g Config_get_bare_env)
    have r: "fst (initialize_providers bare_env (load_from_env (getenv bare_env))) = []"
      by (simp add: g initialize_providers_bare_env)
    have c: "load_from_env (getenv bare_env) =
        (case None of Some c \<Rightarrow> c | None \<Rightarrow> load_from_env (getenv bare_env))"
      by simp
    from default_provider_at_construction[OF c l refl h, of "''gemini''" gemini_provider
        "(''gemini'', gemini_provider)" "[]"]
    obtain self evs where
      i: "RequestProcessor_init bare_env None = (Inr self, evs)" and
      p: "providers self = fst (initialize_providers bare_env (load_from_env (getenv bare_env)))" and
      d: "providers self = [] \<longrightarrow>
          default_provider self = None \<and> evs \<noteq> [] \<and>
          last evs = LogError ''No AI providers available'' ''initialization_error''
                       [(''configured_providers'', PList [])]"
      by blast
    from p r have p': "providers self = []" by simp
    with d have "default_provider self = None \<and>
          last evs = LogError ''No AI providers available'' ''initialization_error''
                       [(''configured_providers'', PList [])]"
      by simp
    with i p' have "providers (projr (fst (RequestProcessor_init bare_env None))) = [] \<and>
      default_provider (projr (fst (RequestProcessor_init bare_env None))) = None \<and>
      last (snd (RequestProcessor_init bare_env None)) =
        LogError ''No AI providers available'' ''initialization_error''
          [(''configured_providers'', PList [])]"
      by simp
    with l h show ?thesis by blast
  qed
  from both fallback none show ?thesis by blast
qed

text \<open>
  Claim C6.  \<open>switch_default_provider(name)\<close> returns true exactly when the name is a
  key of the registry, and then the default is the provider registered under it;
  otherwise it returns false and the default is unchanged.  The registry and the
  configuration are unchanged either way, and there is no raise in the function.
\<close>

theorem switch_default_provider_frame:
  "fst (switch_default_provider self name) = (map_of (providers self) name \<noteq> None) \<and>
   (map_of (providers self) name = Some p \<longrightarrow>
      default_provider (fst (snd (switch_default_provider self name))) = Some p) \<and>
   (map_of (providers self) name = None \<longrightarrow>
      default_provider (fst (snd (switch_default_provider self name))) = default_provider self) \<and>
   providers (fst (snd (switch_default_provider self name))) = providers self \<and>
   config (fst (snd (switch_default_provider self name))) = config self"
  by (simp add: switch_default_provider_def split: option.splits)

text \<open>On the processor with the Gemini provider: switching to \<open>gemini\<close> and to \<open>gpt\<close>.\<close>

theorem switch_default_provider_frame_witness:
  "map_of (providers gemini_processor) ''gemini'' = Some gemini_provider \<and>
   fst (switch_default_provider gemini_processor ''gemini'') \<and>
   default_provider (fst (snd (switch_default_provider gemini_processor ''gemini'')))
     = Some gemini_provider \<and>
   map_of (providers gemini_processor) ''gpt'' = None \<and>
   \<not> fst (switch_default_provider gemini_processor ''gpt'') \<and>
   default_provider (fst (snd (switch_default_provider gemini_processor ''gpt'')))
     = default_provider gemini_processor \<and>
   providers (fst (snd (switch_default_provider gemini_processor ''gpt'')))
     = providers gemini_processor"
proof -
  have m1: "map_of (providers gemini_processor) ''gemini'' = Some gemini_provider"
    by (simp add: gemini_processor_def)
  have m2: "map_of (providers gemini_processor) ''gpt'' = None"
    by (simp add: gemini_processor_def)
  from switch_default_provider_frame[of gemini_processor "''gemini''" gemini_provider]
    switch_default_provider_frame[of gemini_processor "''gpt''" gemini_provider] m1 m2
  show ?thesis by simp
qed

text \<open>
  Claim C8.  With an empty (falsy) credential or an empty (falsy) model identifier, the
  construction of either provider raises the \<open>ValueError\<close> of \<open>_validate_config\<close>, and
  no event has happened: the client library was not touched.
\<close>

theorem provider_construction_validates:
  assumes "\<not> truthy (api_key cfg) \<or> \<not> truthy (model cfg)"
  shows "(\<exists>m. fst (GeminiProvider_init env cfg) = Inl (Raise ValueError m)) \<and>
         snd (GeminiProvider_init env cfg) = [] \<and>
         (\<exists>m. fst (GPTProvider_init env cfg) = Inl (Raise ValueError m)) \<and>
         snd (GPTProvider_init env cfg) = []"
  using assms
  by (auto simp: GeminiProvider_init_def GPTProvider_init_def validate_config_def)

text \<open>An empty API key for Gemini and an empty model name for GPT.\<close>

theorem provider_construction_validates_witness:
  "\<not> truthy (api_key (new_AIProviderConfig (PStr []) (PStr ''gemini-pro'') (PFloat (7 / 10)) PNone)) \<and>
   fst (GeminiProvider_init gemini_env
          (new_AIProviderConfig (PStr []) (PStr ''gemini-pro'') (PFloat (7 / 10)) PNone)) =
     Inl (Raise ValueError ''GeminiProvider requires an API key'') \<and>
   snd (GeminiProvider_init gemini_env
          (new_AIProviderConfig (PStr []) (PStr ''gemini-pro'') (PFloat (7 / 10)) PNone)) = [] \<and>
   \<not> truthy (model (new_AIProviderConfig (PStr ''k1'') (PStr []) (PFloat (7 / 10)) PNone)) \<and>
   fst (GPTProvider_init gemini_env
          (new_AIProviderConfig (PStr ''k1'') (PStr []) (PFloat (7 / 10)) PNone)) =
     Inl (Raise ValueError ''GPTProvider requires a model name'') \<and>
   snd (GPTProvider_init gemini_env
          (new_AIProviderConfig (PStr ''k1'') (PStr []) (PFloat (7 / 10)) PNone)) = []"
proof -
  have a: "\<not> truthy (api_key (new_AIProviderConfig (PStr []) (PStr ''gemini-pro'') (PFloat (7 / 10)) PNone))"
    by (simp add: new_AIProviderConfig_def)
  have b: "\<not> truthy (model (new_AIProviderConfig (PStr ''k1'') (PStr []) (PFloat (7 / 10)) PNone))"
    by (simp add: new_AIProviderConfig_def)
  have v1: "validate_config GeminiProvider (new_AIProviderConfig (PStr []) (PStr ''gemini-pro'') (PFloat (7 / 10)) PNone)
      = Some (Raise ValueError ''GeminiProvider requires an API key'')"
    by (simp add: validate_config_def new_AIProviderConfig_def)
  have v2: "validate_config GPTProvider (new_AIProviderConfig (PStr ''k1'') (PStr []) (PFloat (7 / 10)) PNone)
      = Some (Raise ValueError ''GPTProvider requires a model name'')"
    by (simp add: validate_config_def new_AIProviderConfig_def)
  from provider_construction_validates[of "new_AIProviderConfig (PStr []) (PStr ''gemini-pro'') (PFloat (7 / 10)) PNone" gemini_env] a
  have r1: "snd (GeminiProvider_init gemini_env
          (new_AIProviderConfig (PStr []) (PStr ''gemini-pro'') (PFloat (7 / 10)) PNone)) = []"
    by blast
  from provider_construction_validates[of "new_AIProviderConfig (PStr ''k1'') (PStr []) (PFloat (7 / 10)) PNone" gemini_env] b
  have r2: "snd (GPTProvider_init gemini_env
          (new_AIProviderConfig (PStr ''k1'') (PStr []) (PFloat (7 / 10)) PNone)) = []"
    by blast
  have f1: "fst (GeminiProvider_init gemini_env
          (new_AIProviderConfig (PStr []) (PStr ''gemini-pro'') (PFloat (7 / 10)) PNone)) =
     Inl (Raise ValueError ''GeminiProvider requires an API key'')"
    by (simp add: GeminiProvider_init_def v1)
  have f2: "fst (GPTProvider_init gemini_env
          (new_AIProviderConfig (PStr ''k1'') (PStr []) (PFloat (7 / 10)) PNone)) =
     Inl (Raise ValueError ''GPTProvider requires a model name'')"
    by (simp add: GPTProvider_init_def v2)
  from a b r1 r2 f1 f2 show ?thesis by blast
qed

section \<open>Prompt assembly keeps the order of its inputs\<close>

text \<open>
  Skipping text and matching a segment keep the order; a joined list of lines holds its
  lines in order.
\<close>

lemma starts_with_append: "starts_with (s @ t) s"
  by (induction s) simp_all

lemma in_order_skip_char: "in_order ss t \<Longrightarrow> in_order ss (c # t)"
  by (cases ss) simp_all

lemma in_order_skip: "in_order ss t \<Longrightarrow> in_order ss (p @ t)"
  by (induction p) (simp_all add: in_order_skip_char)

lemma in_order_match: "in_order ss t \<Longrightarrow> in_order (s # ss) (s @ t)"
proof (cases "s @ t")
  case Nil
  assume "in_order ss t"
  with Nil show ?thesis by simp
next
  case (Cons c u)
  assume a: "in_order ss t"
  have "starts_with (c # u) s" using starts_with_append[of s t] Cons by simp
  moreover have "drop (length s) (c # u) = t" using Cons[symmetric] by simp
  ultimately have "in_order (s # ss) (c # u)" using a by simp
  with Cons show ?thesis by simp
qed

lemma in_order_join:
  "in_order ss rest \<Longrightarrow> in_order (xs @ ss) (join sep xs @ rest)"
proof (induction sep xs rule: join.induct)
  case (1 sep)
  then show ?case by simp
next
  case (2 sep x)
  then show ?case by (simp add: in_order_match)
next
  case (3 sep x y ys)
  from 3 have "in_order ((y # ys) @ ss) (join sep (y # ys) @ rest)" by simp
  then have "in_order ((y # ys) @ ss) (sep @ join sep (y # ys) @ rest)"
    by (rule in_order_skip)
  then have "in_order (x # (y # ys) @ ss) (x @ sep @ join sep (y # ys) @ rest)"
    by (rule in_order_match)
  then show ?case by simp
qed

text \<open>The two assembled values, written out.\<close>

lemma build_prompt_layout:
  "build_prompt str prompt ctx history =
     (if context_items ctx = [] then []
      else ''Context:'' @ newline @
           join newline (map (context_line str) (context_items ctx)) @ newline @ newline) @
     (if history_items history = [] then []
      else ''Previous conversation:'' @ newline @
           join newline (map history_line (history_items history)) @ newline @ newline) @
     ''User: '' @ prompt"
  by (cases ctx; cases history)
     (simp_all add: build_prompt_def context_items_def history_items_def)

lemma build_messages_layout:
  "build_messages str prompt ctx history =
     [(''role'', ''system''),
      (''content'',
       ''You are Aura, an intelligent financial assistant.'' @
       (if context_items ctx = [] then []
        else newline @ newline @ ''Context:'' @ newline @
             join newline (map (context_line str) (context_items ctx))))] #
     map history_message (history_items history) @
     [[(''role'', ''user''), (''content'', prompt)]]"
  by (cases ctx; cases history)
     (simp_all add: build_messages_def context_items_def history_items_def Let_def)

text \<open>
  Claim C9.  In the Gemini text the rendered context items occur in the mapping's order,
  then the rendered history messages in their order, then the prompt.  The GPT message
  list is the system message, whose content holds the rendered context items in order,
  followed by the history messages in their order and the user message with the prompt
  last.
\<close>

theorem prompt_assembly_order:
  "in_order (map (context_line str) (context_items ctx) @
             map history_line (history_items history) @ [prompt])
     (build_prompt str prompt ctx history) \<and>
   tl (build_messages str prompt ctx history) =
     map history_message (history_items history) @
     [[(''role'', ''user''), (''content'', prompt)]] \<and>
   map_of (hd (build_messages str prompt ctx history)) ''role'' = Some ''system'' \<and>
   in_order (map (context_line str) (context_items ctx))
     (dict_get_default (hd (build_messages str prompt ctx history)) ''content'' [])"
proof -
  let ?cs = "map (context_line str) (context_items ctx)"
  let ?hs = "map history_line (history_items history)"
  have p: "in_order [prompt] (''User: '' @ prompt)"
    using in_order_skip[OF in_order_match[of "[]" "[]" prompt], of "''User: ''"] by simp
  have h: "in_order (?hs @ [prompt])
     ((if history_items history = [] then []
      else ''Previous conversation:'' @ newline @ join newline ?hs @ newline @ newline) @
     ''User: '' @ prompt)"
  proof (cases "history_items history = []")
    case True
    with p show ?thesis by simp
  next
    case False
    have "in_order [prompt] (newline @ newline @ ''User: '' @ prompt)"
      using in_order_skip[OF p, of "newline @ newline"] by simp
    from in_order_join[OF this, of ?hs newline]
    have "in_order (?hs @ [prompt]) (join newline ?hs @ newline @ newline @ ''User: '' @ prompt)" .
    from in_order_skip[OF this, of "''Previous conversation:'' @ newline"] False
    show ?thesis by simp
  qed
  have g: "in_order (?cs @ ?hs @ [prompt]) (build_prompt str prompt ctx history)"
  proof (cases "context_items ctx = []")
    case True
    with h show ?thesis by (simp add: build_prompt_layout)
  next
    case False
    let ?rest = "(if history_items history = [] then []
      else ''Previous conversation:'' @ newline @ join newline ?hs @ newline @ newline) @
     ''User: '' @ prompt"
    from in_order_skip[OF h, of "newline @ newline"]
    have "in_order (?hs @ [prompt]) (newline @ newline @ ?rest)" by simp
    from in_order_join[OF this, of ?cs newline]
    have "in_order (?cs @ ?hs @ [prompt]) (join newline ?cs @ newline @ newline @ ?rest)" .
    from in_order_skip[OF this, of "''Context:'' @ newline"] False
    show ?thesis by (simp add: build_prompt_layout)
  qed
  have s: "in_order ?cs
     (''You are Aura, an intelligent financial assistant.'' @
       (if context_items ctx = [] then []
        else newline @ newline @ ''Context:'' @ newline @ join newline ?cs))"
  proof (cases "context_items ctx = []")
    case True
    then show ?thesis by simp
  next
    case False
    have "in_order [] []" by simp
    from in_order_join[OF this, of ?cs newline]
    have "in_order ?cs (join newline ?cs)" by simp
    from in_order_skip[OF this,
        of "''You are Aura, an intelligent financial assistant.'' @ newline @ newline @
            ''Context:'' @ newline"] False
    show ?thesis by simp
  qed
  show ?thesis
    using g s by (simp add: build_messages_layout dict_get_default_def)
qed

end
